theory Spec2Isabelle
  imports Main "HOL-Library.AList"
begin

section \<open>Python values, objects and the world of the teaching script\<close>

text \<open>
  The script \<^verbatim>\<open>knotes.py\<close> lays out seven small modules (main, data access,
  business logic, user interface, utilities, configuration, tests, constants).
  The values the modules handle are \<^verbatim>\<open>None\<close>, strings, integers and
  instances of the three classes \<^verbatim>\<open>TaskRepository\<close>, \<^verbatim>\<open>TaskService\<close> and
  \<^verbatim>\<open>Task\<close>. An instance is a reference into a heap of objects; an object is its
  class and its instance dictionary, in insertion order. A string is a list of
  characters; the program compares strings, joins them and hands them on, and never
  looks inside one.
\<close>

datatype error = TypeError | AttributeError | EOFError | AssertionError

datatype pyclass = TaskRepository | TaskService | Task

datatype pyval = PyNone | PyStr string | PyInt int | PyRef nat

record pyobj =
  cls :: pyclass
  attrs :: "(string \<times> pyval) list"

text \<open>
  Standard input is a lazy sequence of lines that either ends (end of file) or goes on
  for ever; standard output is the sequence of texts written, where \<open>Printed s\<close> is
  \<^verbatim>\<open>print(s)\<close> (the text and a newline) and \<open>Prompted s\<close> is the prompt that
  \<^verbatim>\<open>input(s)\<close> writes (no newline).
\<close>

codatatype stdin_stream = EOF | Line string stdin_stream

datatype out_text = Printed string | Prompted string

text \<open>
  The world is everything a call can read or change: the heap, the two streams and the
  module-level variables \<^verbatim>\<open>FILENAME\<close> (config.py) and \<^verbatim>\<open>TASK_MAX_LENGTH\<close>
  (constants.py).
\<close>

record world =
  heap :: "pyobj list"
  stdin :: stdin_stream
  stdout :: "out_text list"
  FILENAME :: string
  TASK_MAX_LENGTH :: int

text \<open>A call either raises (\<open>Inl\<close>) or returns (\<open>Inr\<close>), and leaves a world behind.\<close>

type_synonym 'a prog = "world \<Rightarrow> (error + 'a) \<times> world"

definition py_return :: "'a \<Rightarrow> 'a prog" where
  "py_return x w = (Inr x, w)"

definition py_raise :: "error \<Rightarrow> 'a prog" where
  "py_raise e w = (Inl e, w)"

definition py_bind :: "'a prog \<Rightarrow> ('a \<Rightarrow> 'b prog) \<Rightarrow> 'b prog" where
  "py_bind m f w = (case m w of (Inl e, w') \<Rightarrow> (Inl e, w') | (Inr x, w') \<Rightarrow> f x w')"

definition lift :: "error + 'a \<Rightarrow> 'a prog" where
  "lift r w = (r, w)"

subsection \<open>Built-ins\<close>

text \<open>\<^verbatim>\<open>print(s)\<close> for a string \<open>s\<close>.\<close>

definition py_print :: "string \<Rightarrow> pyval prog" where
  "py_print s w = (Inr PyNone, w\<lparr>stdout := stdout w @ [Printed s]\<rparr>)"

text \<open>
  \<^verbatim>\<open>input(prompt)\<close>: the prompt is written first; then a line is read, and at the
  end of the input \<^verbatim>\<open>EOFError\<close> is raised.
\<close>

definition py_input :: "string \<Rightarrow> string prog" where
  "py_input prompt w =
     (let w1 = w\<lparr>stdout := stdout w @ [Prompted prompt]\<rparr>
      in case stdin w1 of
           EOF \<Rightarrow> (Inl EOFError, w1)
         | Line l rest \<Rightarrow> (Inr l, w1\<lparr>stdin := rest\<rparr>))"

text \<open>
  \<^verbatim>\<open>len(x)\<close>, \<^verbatim>\<open>iter(x)\<close> as a \<^verbatim>\<open>for\<close> loop uses it, and \<^verbatim>\<open>m in x\<close>.
  \<^verbatim>\<open>None\<close>, integers and instances of the three classes (which define none of
  \<^verbatim>\<open>__len__\<close>, \<^verbatim>\<open>__iter__\<close>, \<^verbatim>\<open>__getitem__\<close>, \<^verbatim>\<open>__contains__\<close>) raise
  \<^verbatim>\<open>TypeError\<close>. The items of a string are its one-character strings.
\<close>

fun py_len :: "pyval \<Rightarrow> error + int" where
  "py_len (PyStr s) = Inr (int (length s))"
| "py_len PyNone = Inl TypeError"
| "py_len (PyInt i) = Inl TypeError"
| "py_len (PyRef r) = Inl TypeError"

fun py_iter :: "pyval \<Rightarrow> error + string list" where
  "py_iter (PyStr s) = Inr (map (\<lambda>c. [c]) s)"
| "py_iter PyNone = Inl TypeError"
| "py_iter (PyInt i) = Inl TypeError"
| "py_iter (PyRef r) = Inl TypeError"

fun is_prefix :: "string \<Rightarrow> string \<Rightarrow> bool" where
  "is_prefix [] ys = True"
| "is_prefix (x # xs) [] = False"
| "is_prefix (x # xs) (y # ys) = (x = y \<and> is_prefix xs ys)"

fun is_substring :: "string \<Rightarrow> string \<Rightarrow> bool" where
  "is_substring xs [] = (xs = [])"
| "is_substring xs (y # ys) = (is_prefix xs (y # ys) \<or> is_substring xs ys)"

fun py_contains :: "pyval \<Rightarrow> pyval \<Rightarrow> error + bool" where
  "py_contains (PyStr s) (PyStr m) = Inr (is_substring m s)"
| "py_contains container member = Inl TypeError"

subsection \<open>Objects\<close>

text \<open>A new, empty instance of a class, at the next free address.\<close>

definition new_object :: "pyclass \<Rightarrow> world \<Rightarrow> pyval \<times> world" where
  "new_object c w =
     (PyRef (length (heap w)), w\<lparr>heap := heap w @ [\<lparr>cls = c, attrs = []\<rparr>]\<rparr>)"

definition deref :: "nat \<Rightarrow> world \<Rightarrow> pyobj option" where
  "deref r w = (if r < length (heap w) then Some (heap w ! r) else None)"

text \<open>
  \<^verbatim>\<open>obj.name = v\<close> and reading the data attribute \<^verbatim>\<open>obj.name\<close>. The program
  reads one attribute as a value, \<^verbatim>\<open>self.task_repository\<close>, and the properties below
  read \<^verbatim>\<open>title\<close> and \<^verbatim>\<open>description\<close>: names that no class defines, so the
  look-up is the one in the instance dictionary. (A method is only ever called, never
  read as a value; calls are \<open>py_method\<close> below.) \<^verbatim>\<open>None\<close>, strings and integers
  take no new attribute and have none of the names this program uses. A reference
  outside the heap does not arise in Python; the model answers it with
  \<^verbatim>\<open>AttributeError\<close>.
\<close>

definition py_setattr :: "pyval \<Rightarrow> string \<Rightarrow> pyval \<Rightarrow> pyval prog" where
  "py_setattr obj name v w =
     (case obj of
        PyRef r \<Rightarrow>
          (case deref r w of
             None \<Rightarrow> (Inl AttributeError, w)
           | Some ob \<Rightarrow>
               (Inr PyNone,
                w\<lparr>heap := (heap w)[r := ob\<lparr>attrs := AList.update name v (attrs ob)\<rparr>]\<rparr>))
      | _ \<Rightarrow> (Inl AttributeError, w))"

definition py_getattr :: "pyval \<Rightarrow> string \<Rightarrow> pyval prog" where
  "py_getattr obj name w =
     (case obj of
        PyRef r \<Rightarrow>
          (case deref r w of
             None \<Rightarrow> (Inl AttributeError, w)
           | Some ob \<Rightarrow>
               (case map_of (attrs ob) name of
                  None \<Rightarrow> (Inl AttributeError, w)
                | Some v \<Rightarrow> (Inr v, w)))
      | _ \<Rightarrow> (Inl AttributeError, w))"

text \<open>
  The methods each class defines, and the look-up of a method that is about to be
  called, \<^verbatim>\<open>obj.name(...)\<close>: the instance dictionary comes first, and a value found
  there is not callable (\<^verbatim>\<open>TypeError\<close>); then the class.
\<close>

fun methods :: "pyclass \<Rightarrow> string list" where
  "methods TaskRepository = [''get_tasks'', ''save_task'']"
| "methods TaskService = [''__init__'', ''get_all_tasks'', ''add_task'']"
| "methods Task = [''__init__'']"

definition py_method :: "string \<Rightarrow> pyval \<Rightarrow> world \<Rightarrow> error + pyclass" where
  "py_method name obj w =
     (case obj of
        PyRef r \<Rightarrow>
          (case deref r w of
             None \<Rightarrow> Inl AttributeError
           | Some ob \<Rightarrow>
               (case map_of (attrs ob) name of
                  Some v \<Rightarrow> Inl TypeError
                | None \<Rightarrow>
                    if name \<in> set (methods (cls ob)) then Inr (cls ob)
                    else Inl AttributeError))
      | _ \<Rightarrow> Inl AttributeError)"

section \<open>Data access module (data_access.py)\<close>

text \<open>
  \<^verbatim>\<open>class TaskRepository\<close>: both methods are \<^verbatim>\<open>pass\<close>, so they return
  \<^verbatim>\<open>None\<close>.
\<close>

definition get_tasks :: "pyval \<Rightarrow> pyval prog" where
  "get_tasks self w = (Inr PyNone, w)"

definition save_task :: "pyval \<Rightarrow> pyval \<Rightarrow> pyval prog" where
  "save_task self task w = (Inr PyNone, w)"

text \<open>The calls \<^verbatim>\<open>obj.get_tasks()\<close> and \<^verbatim>\<open>obj.save_task(task)\<close>.\<close>

definition call_get_tasks :: "pyval \<Rightarrow> pyval prog" where
  "call_get_tasks obj w =
     (case py_method ''get_tasks'' obj w of
        Inl e \<Rightarrow> (Inl e, w)
      | Inr c \<Rightarrow> get_tasks obj w)"

definition call_save_task :: "pyval \<Rightarrow> pyval \<Rightarrow> pyval prog" where
  "call_save_task obj task w =
     (case py_method ''save_task'' obj w of
        Inl e \<Rightarrow> (Inl e, w)
      | Inr c \<Rightarrow> save_task obj task w)"

section \<open>Business logic module (business_logic.py)\<close>

text \<open>
  \<^verbatim>\<open>TaskService.__init__\<close> stores a new \<^verbatim>\<open>TaskRepository()\<close> (a class with no
  \<^verbatim>\<open>__init__\<close> of its own) in \<^verbatim>\<open>self.task_repository\<close>; \<open>TaskService_new\<close> is
  the call \<^verbatim>\<open>TaskService()\<close>.
\<close>

definition TaskService_init :: "pyval \<Rightarrow> pyval prog" where
  "TaskService_init self w =
     (let (repo, w1) = new_object TaskRepository w
      in py_setattr self ''task_repository'' repo w1)"

definition TaskService_new :: "pyval prog" where
  "TaskService_new w =
     (let (self, w1) = new_object TaskService w
      in py_bind (TaskService_init self) (\<lambda>_. py_return self) w1)"

definition get_all_tasks :: "pyval \<Rightarrow> pyval prog" where
  "get_all_tasks self =
     py_bind (py_getattr self ''task_repository'') (\<lambda>repo. call_get_tasks repo)"

definition add_task :: "pyval \<Rightarrow> pyval \<Rightarrow> pyval prog" where
  "add_task self task =
     py_bind (py_getattr self ''task_repository'') (\<lambda>repo.
     py_bind (call_save_task repo task) (\<lambda>_. py_return PyNone))"

definition call_get_all_tasks :: "pyval \<Rightarrow> pyval prog" where
  "call_get_all_tasks obj w =
     (case py_method ''get_all_tasks'' obj w of
        Inl e \<Rightarrow> (Inl e, w)
      | Inr c \<Rightarrow> get_all_tasks obj w)"

definition call_add_task :: "pyval \<Rightarrow> pyval \<Rightarrow> pyval prog" where
  "call_add_task obj task w =
     (case py_method ''add_task'' obj w of
        Inl e \<Rightarrow> (Inl e, w)
      | Inr c \<Rightarrow> add_task obj task w)"

text \<open>\<^verbatim>\<open>Task.__init__\<close> and the call \<^verbatim>\<open>Task(title, description)\<close>.\<close>

definition Task_init :: "pyval \<Rightarrow> pyval \<Rightarrow> pyval \<Rightarrow> pyval prog" where
  "Task_init self title description =
     py_bind (py_setattr self ''title'' title) (\<lambda>_.
     py_setattr self ''description'' description)"

definition Task_new :: "pyval \<Rightarrow> pyval \<Rightarrow> pyval prog" where
  "Task_new title description w =
     (let (self, w1) = new_object Task w
      in py_bind (Task_init self title description) (\<lambda>_. py_return self) w1)"

section \<open>User interface module (user_interface.py)\<close>

text \<open>
  The body of \<^verbatim>\<open>for task in tasks: print(f"- {task}")\<close> over the items of the
  iterable.
\<close>

fun print_tasks :: "string list \<Rightarrow> pyval prog" where
  "print_tasks [] = py_return PyNone"
| "print_tasks (task # rest) =
     py_bind (py_print (''- '' @ task)) (\<lambda>_. print_tasks rest)"

text \<open>
  One pass through the body of \<^verbatim>\<open>while True\<close>: it raises, or ends with
  \<^verbatim>\<open>break\<close>, or falls through to the next pass. The body is written over the
  two calls it makes on the service: \<open>get_all_tasks_call\<close> stands for
  \<^verbatim>\<open>task_service.get_all_tasks()\<close> and \<open>add_task_call x\<close> for
  \<^verbatim>\<open>task_service.add_task(x)\<close>, so that what the body hands to the call can be
  told from what the call does with it. \<open>menu_iteration\<close> is the body with the two
  calls of the source in place.
\<close>

datatype flow = Continue | Break

definition menu_body :: "pyval prog \<Rightarrow> (pyval \<Rightarrow> pyval prog) \<Rightarrow> flow prog" where
  "menu_body get_all_tasks_call add_task_call =
     py_bind (py_print ''Task Management Application'') (\<lambda>_.
     py_bind (py_print ''1. View Tasks'') (\<lambda>_.
     py_bind (py_print ''2. Add Task'') (\<lambda>_.
     py_bind (py_print ''3. Quit'') (\<lambda>_.
     py_bind (py_input ''Enter your choice: '') (\<lambda>choice.
       if choice = ''1'' then
         py_bind get_all_tasks_call (\<lambda>tasks.
         py_bind (py_print ''Tasks: '') (\<lambda>_.
         py_bind (lift (py_iter tasks)) (\<lambda>items.
         py_bind (print_tasks items) (\<lambda>_. py_return Continue))))
       else if choice = ''2'' then
         py_bind (py_input ''Enter task description: '') (\<lambda>new_task.
         py_bind (add_task_call (PyStr new_task)) (\<lambda>_.
         py_bind (py_print ''Task added successfully'') (\<lambda>_. py_return Continue)))
       else if choice = ''3'' then
         py_bind (py_print ''Exiting the application. Goodbye!'') (\<lambda>_. py_return Break)
       else
         py_bind (py_print ''Invalid Choice. Please try again.'') (\<lambda>_.
         py_return Continue))))))"

definition menu_iteration :: "pyval \<Rightarrow> flow prog" where
  "menu_iteration task_service =
     menu_body (call_get_all_tasks task_service) (call_add_task task_service)"

text \<open>
  The loop \<^verbatim>\<open>while True\<close>. It may run for ever: then the result is \<open>None\<close>.
\<close>

partial_function (option) menu_loop ::
  "pyval \<Rightarrow> world \<Rightarrow> ((error + pyval) \<times> world) option" where
  "menu_loop task_service w =
     (case menu_iteration task_service w of
        (Inl e, w') \<Rightarrow> Some (Inl e, w')
      | (Inr Break, w') \<Rightarrow> Some (Inr PyNone, w')
      | (Inr Continue, w') \<Rightarrow> menu_loop task_service w')"

definition start_application :: "world \<Rightarrow> ((error + pyval) \<times> world) option" where
  "start_application w =
     (case TaskService_new w of
        (Inl e, w') \<Rightarrow> Some (Inl e, w')
      | (Inr task_service, w') \<Rightarrow> menu_loop task_service w')"

section \<open>Utilities, configuration and constants\<close>

definition format_date :: "pyval \<Rightarrow> pyval prog" where
  "format_date date w = (Inr PyNone, w)"

text \<open>
  Running config.py is the assignment \<^verbatim>\<open>FILENAME = "data.txt"\<close>; running
  constants.py is \<^verbatim>\<open>TASK_MAX_LENGTH = 100\<close>.
\<close>

definition config_module :: "world \<Rightarrow> world" where
  "config_module w = w\<lparr>FILENAME := ''data.txt''\<rparr>"

definition constants_module :: "world \<Rightarrow> world" where
  "constants_module w = w\<lparr>TASK_MAX_LENGTH := 100\<rparr>"

section \<open>Tests module (tests.py)\<close>

text \<open>
  \<^verbatim>\<open>assertEqual\<close> and \<^verbatim>\<open>assertIn\<close> of \<^verbatim>\<open>unittest.TestCase\<close>, and the test
  method. A test passes when its method returns; it does not pass when the method
  raises.
\<close>

definition assertEqual :: "int \<Rightarrow> int \<Rightarrow> pyval prog" where
  "assertEqual first second =
     (if first = second then py_return PyNone else py_raise AssertionError)"

definition assertIn :: "pyval \<Rightarrow> pyval \<Rightarrow> pyval prog" where
  "assertIn member container =
     py_bind (lift (py_contains container member)) (\<lambda>found.
     if found then py_return PyNone else py_raise AssertionError)"

definition test_add_task :: "pyval prog" where
  "test_add_task =
     py_bind TaskService_new (\<lambda>task_service.
     py_bind (call_get_all_tasks task_service) (\<lambda>tasks0.
     py_bind (lift (py_len tasks0)) (\<lambda>initial_task_count.
     py_bind (Task_new (PyStr ''New Task'') (PyStr ''Description of the new task''))
       (\<lambda>new_task.
     py_bind (call_add_task task_service new_task) (\<lambda>_.
     py_bind (call_get_all_tasks task_service) (\<lambda>tasks1.
     py_bind (lift (py_len tasks1)) (\<lambda>updated_task_count.
     py_bind (assertEqual updated_task_count (initial_task_count + 1)) (\<lambda>_.
     py_bind (call_get_all_tasks task_service) (\<lambda>tasks2.
     assertIn new_task tasks2)))))))))"

section \<open>Notions used to state the properties\<close>

text \<open>
  What every pass through the loop writes first: the four menu lines and the prompt of
  \<^verbatim>\<open>input("Enter your choice: ")\<close>.
\<close>

definition menu_text :: "out_text list" where
  "menu_text = [Printed ''Task Management Application'', Printed ''1. View Tasks'',
     Printed ''2. Add Task'', Printed ''3. Quit'', Prompted ''Enter your choice: '']"

text \<open>
  \<open>plain_instance c obj w\<close>: in the world \<open>w\<close>, \<open>obj\<close> is an instance of the class
  \<open>c\<close> whose instance dictionary hides none of the methods of \<open>c\<close>.
  \<open>TaskService_instance s repo w\<close>: \<open>s\<close> is such an instance of \<^verbatim>\<open>TaskService\<close>
  and \<^verbatim>\<open>s.task_repository\<close> is \<open>repo\<close>, such an instance of
  \<^verbatim>\<open>TaskRepository\<close>; this is what \<^verbatim>\<open>TaskService()\<close> creates.
\<close>

definition plain_instance :: "pyclass \<Rightarrow> pyval \<Rightarrow> world \<Rightarrow> bool" where
  "plain_instance c obj w =
     (case obj of
        PyRef r \<Rightarrow>
          (case deref r w of
             None \<Rightarrow> False
           | Some ob \<Rightarrow>
               cls ob = c \<and> list_all (\<lambda>name. map_of (attrs ob) name = None) (methods c))
      | _ \<Rightarrow> False)"

definition TaskService_instance :: "pyval \<Rightarrow> pyval \<Rightarrow> world \<Rightarrow> bool" where
  "TaskService_instance s repo w =
     (plain_instance TaskService s w \<and>
      fst (py_getattr s ''task_repository'' w) = Inr repo \<and>
      plain_instance TaskRepository repo w)"

text \<open>
  The lines the user types, classified by what the menu loop does with them.
  \<open>quits inp\<close>: after finitely many entries that make the loop go round (a line other
  than \<^verbatim>\<open>"1"\<close>, \<^verbatim>\<open>"2"\<close>, \<^verbatim>\<open>"3"\<close>; or \<^verbatim>\<open>"2"\<close> and then a description
  line) the user enters \<^verbatim>\<open>"3"\<close> at the menu prompt.
  \<open>crashes e inp\<close>: after finitely many such entries, the input ends at a prompt
  (\<open>e\<close> is \<^verbatim>\<open>EOFError\<close>) or the user enters \<^verbatim>\<open>"1"\<close> at the menu prompt
  (\<open>e\<close> is \<^verbatim>\<open>TypeError\<close>).
\<close>

inductive quits :: "stdin_stream \<Rightarrow> bool" where
  quit_now: "quits (Line ''3'' rest)"
| quit_after_invalid:
    "c \<noteq> ''1'' \<Longrightarrow> c \<noteq> ''2'' \<Longrightarrow> c \<noteq> ''3'' \<Longrightarrow> quits rest \<Longrightarrow> quits (Line c rest)"
| quit_after_add: "quits rest \<Longrightarrow> quits (Line ''2'' (Line d rest))"

inductive crashes :: "error \<Rightarrow> stdin_stream \<Rightarrow> bool" where
  crash_eof: "crashes EOFError EOF"
| crash_view: "crashes TypeError (Line ''1'' rest)"
| crash_add_eof: "crashes EOFError (Line ''2'' EOF)"
| crash_after_invalid:
    "c \<noteq> ''1'' \<Longrightarrow> c \<noteq> ''2'' \<Longrightarrow> c \<noteq> ''3'' \<Longrightarrow> crashes e rest \<Longrightarrow> crashes e (Line c rest)"
| crash_after_add: "crashes e rest \<Longrightarrow> crashes e (Line ''2'' (Line d rest))"

text \<open>A user who types the same line for ever.\<close>

primcorec forever :: "string \<Rightarrow> stdin_stream" where
  "forever l = Line l (forever l)"

text \<open>
  \<open>ignores upd m\<close>: running \<open>m\<close> after the change \<open>upd\<close> to the world gives the same
  result as running it before, and the same world but for that change. The changes of
  interest assign one of the two module-level variables.
\<close>

definition ignores :: "(world \<Rightarrow> world) \<Rightarrow> 'a prog \<Rightarrow> bool" where
  "ignores upd m = (\<forall>w. m (upd w) = apsnd upd (m w))"

definition config_update :: "(world \<Rightarrow> world) \<Rightarrow> bool" where
  "config_update upd =
     ((\<exists>f. upd = FILENAME_update (\<lambda>_. f)) \<or> (\<exists>n. upd = TASK_MAX_LENGTH_update (\<lambda>_. n)))"

text \<open>
  \<open>echoes line out\<close>: some text written to the output contains \<open>line\<close>.
\<close>

fun written_text :: "out_text \<Rightarrow> string" where
  "written_text (Printed s) = s"
| "written_text (Prompted s) = s"

definition echoes :: "string \<Rightarrow> out_text list \<Rightarrow> bool" where
  "echoes line out = list_ex (\<lambda>t. is_substring line (written_text t)) out"

text \<open>
  The world in which a program starts: nothing on the heap, nothing written, the user's
  lines \<open>inp\<close> waiting, and config.py and constants.py loaded. (Before they are loaded
  the two variables have no value; the model writes the empty string and 0 there.)
\<close>

definition blank_world :: "stdin_stream \<Rightarrow> world" where
  "blank_world inp =
     \<lparr>heap = [], stdin = inp, stdout = [], FILENAME = [], TASK_MAX_LENGTH = 0\<rparr>"

definition initial_world :: "stdin_stream \<Rightarrow> world" where
  "initial_world inp = constants_module (config_module (blank_world inp))"

section \<open>Auxiliary facts\<close>

subsection \<open>Sequencing, objects and the service\<close>

lemma py_bind_Inr: "m w = (Inr x, w') \<Longrightarrow> py_bind m f w = f x w'"
  by (simp add: py_bind_def)

lemma py_bind_Inl: "m w = (Inl e, w') \<Longrightarrow> py_bind m f w = (Inl e, w')"
  by (simp add: py_bind_def)

lemmas prog_defs = py_bind_def py_return_def py_raise_def lift_def py_print_def py_input_def

lemma TaskService_new_eq:
  "TaskService_new w =
     (Inr (PyRef (length (heap w))),
      w\<lparr>heap := heap w @
         [\<lparr>cls = TaskService, attrs = [(''task_repository'', PyRef (Suc (length (heap w))))]\<rparr>,
          \<lparr>cls = TaskRepository, attrs = []\<rparr>]\<rparr>)"
  by (simp add: TaskService_new_def TaskService_init_def new_object_def py_setattr_def
      deref_def py_bind_def py_return_def nth_append list_update_append)

lemma TaskService_new_instance:
  "TaskService_instance (PyRef (length (heap w))) (PyRef (Suc (length (heap w))))
     (snd (TaskService_new w))"
  by (simp add: TaskService_new_eq TaskService_instance_def plain_instance_def deref_def
      py_getattr_def nth_append)

lemma py_getattr_world: "snd (py_getattr obj name w) = w"
  by (simp add: py_getattr_def split: pyval.splits option.splits)

lemma plain_repository_methods:
  "plain_instance TaskRepository repo w \<Longrightarrow>
     py_method ''get_tasks'' repo w = Inr TaskRepository \<and>
     py_method ''save_task'' repo w = Inr TaskRepository"
  by (auto simp add: plain_instance_def py_method_def split: pyval.splits option.splits)

lemma plain_service_methods:
  "plain_instance TaskService s w \<Longrightarrow>
     py_method ''get_all_tasks'' s w = Inr TaskService \<and>
     py_method ''add_task'' s w = Inr TaskService"
  by (auto simp add: plain_instance_def py_method_def split: pyval.splits option.splits)

lemma call_get_tasks_plain:
  "plain_instance TaskRepository repo w \<Longrightarrow> call_get_tasks repo w = get_tasks repo w"
  by (simp add: call_get_tasks_def plain_repository_methods)

lemma call_save_task_plain:
  "plain_instance TaskRepository repo w \<Longrightarrow> call_save_task repo task w = save_task repo task w"
  by (simp add: call_save_task_def plain_repository_methods)

lemma get_all_tasks_forwards:
  "fst (py_getattr s ''task_repository'' w) = Inr repo \<Longrightarrow>
     get_all_tasks s w = call_get_tasks repo w"
  using py_getattr_world [of s "''task_repository''" w]
  by (cases "py_getattr s ''task_repository'' w") (simp add: get_all_tasks_def py_bind_def)

lemma call_save_task_cases:
  "call_save_task repo task w = (Inr PyNone, w) \<or> (\<exists>e. call_save_task repo task w = (Inl e, w))"
  by (simp add: call_save_task_def save_task_def split: sum.splits)

lemma call_get_tasks_cases:
  "call_get_tasks repo w = (Inr PyNone, w) \<or> (\<exists>e. call_get_tasks repo w = (Inl e, w))"
  by (simp add: call_get_tasks_def get_tasks_def split: sum.splits)

lemma add_task_forwards:
  "fst (py_getattr s ''task_repository'' w) = Inr repo \<Longrightarrow>
     add_task s task w = call_save_task repo task w"
  using py_getattr_world [of s "''task_repository''" w] call_save_task_cases [of repo task w]
  by (cases "py_getattr s ''task_repository'' w") (auto simp add: add_task_def py_bind_def py_return_def)

lemma instance_get_all_tasks:
  "TaskService_instance s repo w \<Longrightarrow> get_all_tasks s w = (Inr PyNone, w)"
proof -
  assume a: "TaskService_instance s repo w"
  then have "get_all_tasks s w = call_get_tasks repo w"
    by (intro get_all_tasks_forwards) (simp add: TaskService_instance_def)
  also from a have "\<dots> = get_tasks repo w"
    by (intro call_get_tasks_plain) (simp add: TaskService_instance_def)
  finally show ?thesis by (simp add: get_tasks_def)
qed

lemma instance_add_task:
  "TaskService_instance s repo w \<Longrightarrow> add_task s task w = (Inr PyNone, w)"
proof -
  assume a: "TaskService_instance s repo w"
  then have "add_task s task w = call_save_task repo task w"
    by (intro add_task_forwards) (simp add: TaskService_instance_def)
  also from a have "\<dots> = save_task repo task w"
    by (intro call_save_task_plain) (simp add: TaskService_instance_def)
  finally show ?thesis by (simp add: save_task_def)
qed

lemma instance_call_get_all_tasks:
  "TaskService_instance s repo w \<Longrightarrow> call_get_all_tasks s w = (Inr PyNone, w)"
  using instance_get_all_tasks [of s repo w] plain_service_methods [of s w]
  by (simp add: call_get_all_tasks_def TaskService_instance_def)

lemma instance_call_add_task:
  "TaskService_instance s repo w \<Longrightarrow> call_add_task s task w = (Inr PyNone, w)"
  using instance_add_task [of s repo w task] plain_service_methods [of s w]
  by (simp add: call_add_task_def TaskService_instance_def)

lemma instance_heap:
  "heap w' = heap w \<Longrightarrow> TaskService_instance s repo w' = TaskService_instance s repo w"
  by (simp add: TaskService_instance_def plain_instance_def deref_def py_getattr_def
      split: pyval.splits option.splits)

subsection \<open>One pass through the menu loop\<close>

lemma menu_iteration_unfold:
  "menu_iteration task_service =
     py_bind (py_print ''Task Management Application'') (\<lambda>_.
     py_bind (py_print ''1. View Tasks'') (\<lambda>_.
     py_bind (py_print ''2. Add Task'') (\<lambda>_.
     py_bind (py_print ''3. Quit'') (\<lambda>_.
     py_bind (py_input ''Enter your choice: '') (\<lambda>choice.
       if choice = ''1'' then
         py_bind (call_get_all_tasks task_service) (\<lambda>tasks.
         py_bind (py_print ''Tasks: '') (\<lambda>_.
         py_bind (lift (py_iter tasks)) (\<lambda>items.
         py_bind (print_tasks items) (\<lambda>_. py_return Continue))))
       else if choice = ''2'' then
         py_bind (py_input ''Enter task description: '') (\<lambda>new_task.
         py_bind (call_add_task task_service (PyStr new_task)) (\<lambda>_.
         py_bind (py_print ''Task added successfully'') (\<lambda>_. py_return Continue)))
       else if choice = ''3'' then
         py_bind (py_print ''Exiting the application. Goodbye!'') (\<lambda>_. py_return Break)
       else
         py_bind (py_print ''Invalid Choice. Please try again.'') (\<lambda>_.
         py_return Continue))))))"
  by (simp add: menu_iteration_def menu_body_def)

lemma it_eof:
  "stdin w = EOF \<Longrightarrow>
     menu_iteration svc w = (Inl EOFError, w\<lparr>stdout := stdout w @ menu_text\<rparr>)"
  by (simp add: menu_iteration_unfold prog_defs menu_text_def)

lemma it_quit:
  "stdin w = Line ''3'' rest \<Longrightarrow>
     menu_iteration svc w =
       (Inr Break, w\<lparr>stdin := rest,
          stdout := stdout w @ menu_text @ [Printed ''Exiting the application. Goodbye!'']\<rparr>)"
  by (simp add: menu_iteration_unfold prog_defs menu_text_def)

lemma it_invalid:
  "stdin w = Line c rest \<Longrightarrow> c \<noteq> ''1'' \<Longrightarrow> c \<noteq> ''2'' \<Longrightarrow> c \<noteq> ''3'' \<Longrightarrow>
     menu_iteration svc w =
       (Inr Continue, w\<lparr>stdin := rest,
          stdout := stdout w @ menu_text @ [Printed ''Invalid Choice. Please try again.'']\<rparr>)"
  by (simp add: menu_iteration_unfold prog_defs menu_text_def)

lemma it_add_eof:
  "stdin w = Line ''2'' EOF \<Longrightarrow>
     menu_iteration svc w =
       (Inl EOFError, w\<lparr>stdin := EOF,
          stdout := stdout w @ menu_text @ [Prompted ''Enter task description: '']\<rparr>)"
  by (simp add: menu_iteration_unfold prog_defs menu_text_def)

lemma instance_call_add_task_heap:
  "TaskService_instance svc repo w \<Longrightarrow> heap w' = heap w \<Longrightarrow>
     call_add_task svc task w' = (Inr PyNone, w')"
  by (rule instance_call_add_task [of svc repo]) (simp add: instance_heap [of w' w])

lemma instance_call_get_all_tasks_heap:
  "TaskService_instance svc repo w \<Longrightarrow> heap w' = heap w \<Longrightarrow>
     call_get_all_tasks svc w' = (Inr PyNone, w')"
  by (rule instance_call_get_all_tasks [of svc repo]) (simp add: instance_heap [of w' w])

lemma it_add_as_call:
  "stdin w = Line ''2'' (Line d rest) \<Longrightarrow>
     menu_iteration svc w =
       py_bind (call_add_task svc (PyStr d)) (\<lambda>_.
       py_bind (py_print ''Task added successfully'') (\<lambda>_. py_return Continue))
         (w\<lparr>stdout := stdout w @ menu_text @ [Prompted ''Enter task description: ''],
            stdin := rest\<rparr>)"
  by (simp add: menu_iteration_unfold prog_defs menu_text_def)

lemma body_add:
  "stdin w = Line ''2'' (Line d rest) \<Longrightarrow>
     menu_body view add w =
       py_bind (add (PyStr d)) (\<lambda>_.
       py_bind (py_print ''Task added successfully'') (\<lambda>_. py_return Continue))
         (w\<lparr>stdout := stdout w @ menu_text @ [Prompted ''Enter task description: ''],
            stdin := rest\<rparr>)"
  by (simp add: menu_body_def prog_defs menu_text_def)

lemma body_add_returns:
  assumes "stdin w = Line ''2'' (Line d rest)"
    and "add (PyStr d)
          (w\<lparr>stdout := stdout w @ menu_text @ [Prompted ''Enter task description: ''],
             stdin := rest\<rparr>) = (Inr v, w')"
  shows "menu_body view add w =
       (Inr Continue, w'\<lparr>stdout := stdout w' @ [Printed ''Task added successfully'']\<rparr>)"
  by (subst body_add [OF assms(1)], subst py_bind_Inr [where m = "add (PyStr d)", OF assms(2)])
    (simp add: prog_defs)

lemma it_add:
  assumes "stdin w = Line ''2'' (Line d rest)" and "TaskService_instance svc repo w"
  shows "menu_iteration svc w =
       (Inr Continue, w\<lparr>stdin := rest,
          stdout := stdout w @ menu_text @
            [Prompted ''Enter task description: '', Printed ''Task added successfully'']\<rparr>)"
  using assms(1)
  by (simp add: menu_iteration_unfold prog_defs menu_text_def
      instance_call_add_task_heap [OF assms(2)])

lemma it_view:
  assumes "stdin w = Line ''1'' rest" and "TaskService_instance svc repo w"
  shows "menu_iteration svc w =
       (Inl TypeError, w\<lparr>stdin := rest,
          stdout := stdout w @ menu_text @ [Printed ''Tasks: '']\<rparr>)"
  using assms(1)
  by (simp add: menu_iteration_unfold prog_defs menu_text_def
      instance_call_get_all_tasks_heap [OF assms(2)])

lemma py_getattr_cases:
  "(\<exists>v. py_getattr obj name w = (Inr v, w)) \<or> (\<exists>e. py_getattr obj name w = (Inl e, w))"
  by (simp add: py_getattr_def split: pyval.splits option.splits)

lemma get_all_tasks_cases:
  "get_all_tasks s w = (Inr PyNone, w) \<or> (\<exists>e. get_all_tasks s w = (Inl e, w))"
proof -
  from py_getattr_cases [of s "''task_repository''" w] show ?thesis
  proof (elim disjE exE)
    fix v assume "py_getattr s ''task_repository'' w = (Inr v, w)"
    then show ?thesis
      using call_get_tasks_cases [of v w]
      by (auto simp add: get_all_tasks_def py_bind_def)
  next
    fix e assume "py_getattr s ''task_repository'' w = (Inl e, w)"
    then show ?thesis by (simp add: get_all_tasks_def py_bind_def)
  qed
qed

lemma add_task_cases:
  "add_task s task w = (Inr PyNone, w) \<or> (\<exists>e. add_task s task w = (Inl e, w))"
proof -
  from py_getattr_cases [of s "''task_repository''" w] show ?thesis
  proof (elim disjE exE)
    fix v assume "py_getattr s ''task_repository'' w = (Inr v, w)"
    then show ?thesis
      using call_save_task_cases [of v task w]
      by (auto simp add: add_task_def py_bind_def py_return_def)
  next
    fix e assume "py_getattr s ''task_repository'' w = (Inl e, w)"
    then show ?thesis by (simp add: add_task_def py_bind_def)
  qed
qed

lemma call_get_all_tasks_cases:
  "call_get_all_tasks s w = (Inr PyNone, w) \<or> (\<exists>e. call_get_all_tasks s w = (Inl e, w))"
  using get_all_tasks_cases [of s w]
  by (auto simp add: call_get_all_tasks_def split: sum.splits)

lemma call_add_task_cases:
  "call_add_task s task w = (Inr PyNone, w) \<or> (\<exists>e. call_add_task s task w = (Inl e, w))"
  using add_task_cases [of s task w]
  by (auto simp add: call_add_task_def split: sum.splits)

lemma it_view_raises:
  assumes "stdin w = Line ''1'' rest"
  shows "\<exists>e w'. menu_iteration svc w = (Inl e, w')"
proof -
  let ?w1 = "w\<lparr>stdout := stdout w @ menu_text, stdin := rest\<rparr>"
  have eq: "menu_iteration svc w =
      py_bind (call_get_all_tasks svc) (\<lambda>tasks.
         py_bind (py_print ''Tasks: '') (\<lambda>_.
         py_bind (lift (py_iter tasks)) (\<lambda>items.
         py_bind (print_tasks items) (\<lambda>_. py_return Continue)))) ?w1"
    using assms by (simp add: menu_iteration_unfold prog_defs menu_text_def)
  from call_get_all_tasks_cases [of svc ?w1] show ?thesis
    by (auto simp add: eq prog_defs)
qed

lemma it_add_any:
  assumes "stdin w = Line ''2'' (Line d rest)"
  shows "(\<exists>e. menu_iteration svc w =
        (Inl e, w\<lparr>stdin := rest,
           stdout := stdout w @ menu_text @ [Prompted ''Enter task description: '']\<rparr>)) \<or>
     menu_iteration svc w =
       (Inr Continue, w\<lparr>stdin := rest,
          stdout := stdout w @ menu_text @
            [Prompted ''Enter task description: '', Printed ''Task added successfully'']\<rparr>)"
proof -
  let ?w2 = "w\<lparr>stdout := stdout w @ menu_text @ [Prompted ''Enter task description: ''],
            stdin := rest\<rparr>"
  from call_add_task_cases [of svc "PyStr d" ?w2] show ?thesis
    by (auto simp add: it_add_as_call [OF assms] prog_defs)
qed

lemma it_heap: "heap (snd (menu_iteration svc w)) = heap w"
proof (cases "stdin w")
  case EOF
  then show ?thesis by (simp add: it_eof)
next
  case (Line c rest)
  show ?thesis
  proof (cases "c = ''1''")
    case True
    let ?w1 = "w\<lparr>stdout := stdout w @ menu_text, stdin := rest\<rparr>"
    have eq: "menu_iteration svc w =
      py_bind (call_get_all_tasks svc) (\<lambda>tasks.
         py_bind (py_print ''Tasks: '') (\<lambda>_.
         py_bind (lift (py_iter tasks)) (\<lambda>items.
         py_bind (print_tasks items) (\<lambda>_. py_return Continue)))) ?w1"
      using Line True by (simp add: menu_iteration_unfold prog_defs menu_text_def)
    from call_get_all_tasks_cases [of svc ?w1] show ?thesis
      by (auto simp add: eq prog_defs)
  next
    case c1: False
    show ?thesis
    proof (cases "c = ''2''")
      case True
      show ?thesis
      proof (cases rest)
        case EOF
        with Line True show ?thesis by (simp add: it_add_eof)
      next
        case (Line d rest')
        with \<open>stdin w = Line c rest\<close> True have "stdin w = Line ''2'' (Line d rest')" by simp
        from it_add_any [OF this, of svc] show ?thesis by auto
      qed
    next
      case c2: False
      show ?thesis
      proof (cases "c = ''3''")
        case True
        with Line show ?thesis by (simp add: it_quit)
      next
        case False
        with Line c1 c2 show ?thesis by (simp add: it_invalid)
      qed
    qed
  qed
qed

subsection \<open>The loop as a whole\<close>

lemma loop_eof:
  "stdin w = EOF \<Longrightarrow>
     menu_loop svc w = Some (Inl EOFError, w\<lparr>stdout := stdout w @ menu_text\<rparr>)"
  by (subst menu_loop.simps) (simp add: it_eof)

lemma loop_quit:
  "stdin w = Line ''3'' rest \<Longrightarrow>
     menu_loop svc w =
       Some (Inr PyNone, w\<lparr>stdin := rest,
          stdout := stdout w @ menu_text @ [Printed ''Exiting the application. Goodbye!'']\<rparr>)"
  by (subst menu_loop.simps) (simp add: it_quit)

lemma loop_invalid:
  "stdin w = Line c rest \<Longrightarrow> c \<noteq> ''1'' \<Longrightarrow> c \<noteq> ''2'' \<Longrightarrow> c \<noteq> ''3'' \<Longrightarrow>
     menu_loop svc w =
       menu_loop svc (w\<lparr>stdin := rest,
          stdout := stdout w @ menu_text @ [Printed ''Invalid Choice. Please try again.'']\<rparr>)"
  by (subst menu_loop.simps) (simp add: it_invalid)

lemma loop_add:
  "stdin w = Line ''2'' (Line d rest) \<Longrightarrow> TaskService_instance svc repo w \<Longrightarrow>
     menu_loop svc w =
       menu_loop svc (w\<lparr>stdin := rest,
          stdout := stdout w @ menu_text @
            [Prompted ''Enter task description: '', Printed ''Task added successfully'']\<rparr>)"
  by (subst menu_loop.simps) (simp add: it_add [of w d rest svc repo])

lemma loop_returns_quits:
  assumes "menu_loop svc w = Some y"
  shows "\<forall>v w'. y = (Inr v, w') \<longrightarrow> quits (stdin w) \<and> v = PyNone \<and> last (stdout w') = Printed ''Exiting the application. Goodbye!''"
proof (rule menu_loop.raw_induct
    [where P = "\<lambda>s w y. \<forall>v w'. y = (Inr v, w') \<longrightarrow>
        quits (stdin w) \<and> v = PyNone \<and> last (stdout w') = Printed ''Exiting the application. Goodbye!''", OF _ assms])
  fix loop svc w y
  assume IH: "\<And>a b y. loop a b = Some y \<Longrightarrow>
      \<forall>v w'. y = (Inr v, w') \<longrightarrow> quits (stdin b) \<and> v = PyNone \<and> last (stdout w') = Printed ''Exiting the application. Goodbye!''"
    and step: "(case menu_iteration svc w of
        (Inl e, w') \<Rightarrow> Some (Inl e, w')
      | (Inr Continue, w') \<Rightarrow> loop svc w'
      | (Inr Break, w') \<Rightarrow> Some (Inr PyNone, w')) = Some y"
  show "\<forall>v w'. y = (Inr v, w') \<longrightarrow> quits (stdin w) \<and> v = PyNone \<and> last (stdout w') = Printed ''Exiting the application. Goodbye!''"
  proof (cases "stdin w")
    case EOF
    with step show ?thesis by (auto simp add: it_eof)
  next
    case (Line c rest)
    show ?thesis
    proof (cases "c = ''1''")
      case True
      with Line it_view_raises [of w rest svc] step show ?thesis by auto
    next
      case c1: False
      show ?thesis
      proof (cases "c = ''2''")
        case True
        show ?thesis
        proof (cases rest)
          case EOF
          with Line True step show ?thesis by (auto simp add: it_add_eof)
        next
          case (Line d rest')
          with \<open>stdin w = Line c rest\<close> True have s: "stdin w = Line ''2'' (Line d rest')" by simp
          from it_add_any [OF s, of svc] show ?thesis
          proof
            assume "\<exists>e. menu_iteration svc w =
              (Inl e, w\<lparr>stdin := rest',
                stdout := stdout w @ menu_text @ [Prompted ''Enter task description: '']\<rparr>)"
            with step show ?thesis by auto
          next
            assume it: "menu_iteration svc w =
              (Inr Continue, w\<lparr>stdin := rest',
                 stdout := stdout w @ menu_text @
                  [Prompted ''Enter task description: '', Printed ''Task added successfully'']\<rparr>)"
            with step have "loop svc (w\<lparr>stdin := rest',
                 stdout := stdout w @ menu_text @
                  [Prompted ''Enter task description: '', Printed ''Task added successfully'']\<rparr>) = Some y"
              by simp
            from IH [OF this] s show ?thesis by (auto intro: quits.intros)
          qed
        qed
      next
        case c2: False
        show ?thesis
        proof (cases "c = ''3''")
          case True
          with Line step show ?thesis by (auto simp add: it_quit intro: quits.intros)
        next
          case False
          with Line c1 c2 step have "loop svc (w\<lparr>stdin := rest,
            stdout := stdout w @ menu_text @ [Printed ''Invalid Choice. Please try again.'']\<rparr>) = Some y"
            by (simp add: it_invalid)
          from IH [OF this] Line c1 c2 False show ?thesis by (auto intro: quits.intros)
        qed
      qed
    qed
  qed
qed

lemma quits_loop_returns:
  assumes "quits s"
  shows "stdin w = s \<Longrightarrow> TaskService_instance svc repo w \<Longrightarrow>
     \<exists>w'. menu_loop svc w = Some (Inr PyNone, w')"
  using assms
proof (induction arbitrary: w rule: quits.induct)
  case (quit_now rest)
  then show ?case by (subst menu_loop.simps) (simp add: it_quit)
next
  case (quit_after_invalid c rest)
  let ?w' = "w\<lparr>stdin := rest,
            stdout := stdout w @ menu_text @ [Printed ''Invalid Choice. Please try again.'']\<rparr>"
  have "TaskService_instance svc repo ?w'"
    using quit_after_invalid.prems(2) by (simp add: instance_heap [of ?w' w])
  with quit_after_invalid.IH [of ?w'] obtain w' where "menu_loop svc ?w' = Some (Inr PyNone, w')"
    by auto
  with quit_after_invalid show ?case by (subst menu_loop.simps) (simp add: it_invalid)
next
  case (quit_after_add rest d)
  let ?w' = "w\<lparr>stdin := rest,
          stdout := stdout w @ menu_text @
            [Prompted ''Enter task description: '', Printed ''Task added successfully'']\<rparr>"
  have "TaskService_instance svc repo ?w'"
    using quit_after_add.prems(2) by (simp add: instance_heap [of ?w' w])
  with quit_after_add.IH [of ?w'] obtain w' where "menu_loop svc ?w' = Some (Inr PyNone, w')"
    by auto
  with quit_after_add show ?case by (subst menu_loop.simps) (simp add: it_add [of w d rest svc repo])
qed

subsection \<open>The module-level variables are never read\<close>

lemma ignoresD: "ignores upd m \<Longrightarrow> m (upd w) = apsnd upd (m w)"
  by (simp add: ignores_def)

lemma ignores_return: "ignores upd (py_return x)"
  by (simp add: ignores_def py_return_def)

lemma ignores_raise: "ignores upd (py_raise e)"
  by (simp add: ignores_def py_raise_def)

lemma ignores_lift: "ignores upd (lift r)"
  by (simp add: ignores_def lift_def)

lemma ignores_bind:
  "ignores upd m \<Longrightarrow> (\<And>x. ignores upd (f x)) \<Longrightarrow> ignores upd (py_bind m f)"
  by (auto simp add: ignores_def py_bind_def split: prod.splits sum.splits)

lemma ignores_if:
  "ignores upd m \<Longrightarrow> ignores upd n \<Longrightarrow> ignores upd (if b then m else n)"
  by simp

lemma ignores_print: "config_update upd \<Longrightarrow> ignores upd (py_print s)"
  by (auto simp add: config_update_def ignores_def py_print_def)

lemma ignores_input: "config_update upd \<Longrightarrow> ignores upd (py_input s)"
  by (auto simp add: config_update_def ignores_def py_input_def Let_def split: stdin_stream.splits)

lemma ignores_setattr: "config_update upd \<Longrightarrow> ignores upd (py_setattr obj name v)"
  by (auto simp add: config_update_def ignores_def py_setattr_def deref_def
      split: pyval.splits)

lemma ignores_getattr: "config_update upd \<Longrightarrow> ignores upd (py_getattr obj name)"
  by (auto simp add: config_update_def ignores_def py_getattr_def deref_def
      split: pyval.splits option.splits)

lemma deref_config: "config_update upd \<Longrightarrow> deref r (upd w) = deref r w"
  by (auto simp add: config_update_def deref_def)

lemma py_method_config: "config_update upd \<Longrightarrow> py_method name obj (upd w) = py_method name obj w"
  by (simp add: py_method_def deref_config cong: pyval.case_cong)

lemma ignores_get_tasks: "ignores upd (get_tasks self)"
  by (simp add: ignores_def get_tasks_def)

lemma ignores_save_task: "ignores upd (save_task self task)"
  by (simp add: ignores_def save_task_def)

lemma ignores_format_date: "ignores upd (format_date date)"
  by (simp add: ignores_def format_date_def)

lemma ignores_call_get_tasks: "config_update upd \<Longrightarrow> ignores upd (call_get_tasks obj)"
  by (simp add: ignores_def call_get_tasks_def py_method_config get_tasks_def split: sum.splits)

lemma ignores_call_save_task: "config_update upd \<Longrightarrow> ignores upd (call_save_task obj task)"
  by (simp add: ignores_def call_save_task_def py_method_config save_task_def split: sum.splits)

lemma ignores_get_all_tasks: "config_update upd \<Longrightarrow> ignores upd (get_all_tasks self)"
  by (simp add: get_all_tasks_def ignores_bind ignores_getattr ignores_call_get_tasks)

lemma ignores_add_task: "config_update upd \<Longrightarrow> ignores upd (add_task self task)"
  by (simp add: add_task_def ignores_bind ignores_getattr ignores_call_save_task ignores_return)

lemma ignores_call_get_all_tasks: "config_update upd \<Longrightarrow> ignores upd (call_get_all_tasks obj)"
  using ignores_get_all_tasks [of upd obj]
  by (simp add: ignores_def call_get_all_tasks_def py_method_config split: sum.splits)

lemma ignores_call_add_task: "config_update upd \<Longrightarrow> ignores upd (call_add_task obj task)"
  using ignores_add_task [of upd obj task]
  by (simp add: ignores_def call_add_task_def py_method_config split: sum.splits)

lemma ignores_Task_init: "config_update upd \<Longrightarrow> ignores upd (Task_init self title description)"
  by (simp add: Task_init_def ignores_bind ignores_setattr)

lemma ignores_Task_new: "config_update upd \<Longrightarrow> ignores upd (Task_new title description)"
proof -
  assume c: "config_update upd"
  have h: "\<And>w. heap (upd w) = heap w" and u: "\<And>w h. upd (w\<lparr>heap := h\<rparr>) = (upd w)\<lparr>heap := h\<rparr>"
    using c by (auto simp add: config_update_def)
  have "\<And>self. ignores upd (py_bind (Task_init self title description) (\<lambda>_. py_return self))"
    using c by (simp add: ignores_bind ignores_Task_init ignores_return)
  then show ?thesis
    by (simp add: ignores_def Task_new_def new_object_def h u [symmetric])
qed

lemma ignores_TaskService_new: "config_update upd \<Longrightarrow> ignores upd TaskService_new"
proof -
  assume c: "config_update upd"
  have h: "\<And>w. heap (upd w) = heap w" and u: "\<And>w h. upd (w\<lparr>heap := h\<rparr>) = (upd w)\<lparr>heap := h\<rparr>"
    using c by (auto simp add: config_update_def)
  show ?thesis
    by (simp add: ignores_def TaskService_new_eq h u)
qed

lemma ignores_print_tasks: "config_update upd \<Longrightarrow> ignores upd (print_tasks items)"
  by (induction items) (simp_all add: ignores_return ignores_bind ignores_print)

lemma ignores_menu_iteration: "config_update upd \<Longrightarrow> ignores upd (menu_iteration svc)"
  unfolding menu_iteration_unfold
  by (intro ignores_bind ignores_if ignores_print ignores_input ignores_return ignores_lift
      ignores_call_get_all_tasks ignores_call_add_task ignores_print_tasks)

lemma ignores_assertEqual: "ignores upd (assertEqual a b)"
  by (simp add: assertEqual_def ignores_return ignores_raise)

lemma ignores_assertIn: "ignores upd (assertIn a b)"
  unfolding assertIn_def
  by (intro ignores_bind ignores_if ignores_lift ignores_return ignores_raise)

lemma ignores_test_add_task: "config_update upd \<Longrightarrow> ignores upd test_add_task"
  unfolding test_add_task_def
  by (intro ignores_bind ignores_TaskService_new ignores_call_get_all_tasks ignores_lift
      ignores_Task_new ignores_call_add_task ignores_assertEqual ignores_assertIn)

lemma menu_loop_config_Some:
  assumes c: "config_update upd" and l: "menu_loop svc w = Some y"
  shows "menu_loop svc (upd w) = Some (apsnd upd y)"
proof (rule menu_loop.raw_induct
    [where P = "\<lambda>s w y. menu_loop s (upd w) = Some (apsnd upd y)", OF _ l])
  fix loop svc w y
  assume IH: "\<And>a b y. loop a b = Some y \<Longrightarrow> menu_loop a (upd b) = Some (apsnd upd y)"
    and step: "(case menu_iteration svc w of
        (Inl e, w') \<Rightarrow> Some (Inl e, w')
      | (Inr Continue, w') \<Rightarrow> loop svc w'
      | (Inr Break, w') \<Rightarrow> Some (Inr PyNone, w')) = Some y"
  have it: "menu_iteration svc (upd w) = apsnd upd (menu_iteration svc w)"
    using ignores_menu_iteration [OF c] by (rule ignoresD)
  show "menu_loop svc (upd w) = Some (apsnd upd y)"
  proof (cases "menu_iteration svc w")
    case (Pair r w1)
    show ?thesis
    proof (cases r)
      case (Inl e)
      with Pair step it show ?thesis by (subst menu_loop.simps) auto
    next
      case (Inr fl)
      show ?thesis
      proof (cases fl)
        case Continue
        with Pair Inr step have "loop svc w1 = Some y" by simp
        from IH [OF this] Pair Inr Continue it show ?thesis
          by (subst menu_loop.simps) simp
      next
        case Break
        with Pair Inr step it show ?thesis by (subst menu_loop.simps) auto
      qed
    qed
  qed
qed

lemma config_update_undo:
  "config_update upd \<Longrightarrow> \<exists>back. config_update back \<and> back (upd w) = w"
proof -
  assume "config_update upd"
  then consider f where "upd = FILENAME_update (\<lambda>_. f)"
    | n where "upd = TASK_MAX_LENGTH_update (\<lambda>_. n)"
    by (auto simp add: config_update_def)
  then show ?thesis
  proof cases
    case 1
    have "config_update (FILENAME_update (\<lambda>_. FILENAME w))"
      by (auto simp add: config_update_def)
    moreover have "FILENAME_update (\<lambda>_. FILENAME w) (upd w) = w" using 1 by simp
    ultimately show ?thesis by blast
  next
    case 2
    have "config_update (TASK_MAX_LENGTH_update (\<lambda>_. TASK_MAX_LENGTH w))"
      by (auto simp add: config_update_def)
    moreover have "TASK_MAX_LENGTH_update (\<lambda>_. TASK_MAX_LENGTH w) (upd w) = w" using 2 by simp
    ultimately show ?thesis by blast
  qed
qed

lemma menu_loop_config:
  assumes c: "config_update upd"
  shows "menu_loop svc (upd w) = map_option (apsnd upd) (menu_loop svc w)"
proof (cases "menu_loop svc w")
  case (Some y)
  with menu_loop_config_Some [OF c Some] show ?thesis by simp
next
  case None
  have "menu_loop svc (upd w) = None"
  proof (rule ccontr)
    assume "menu_loop svc (upd w) \<noteq> None"
    then obtain y where y: "menu_loop svc (upd w) = Some y" by auto
    from config_update_undo [OF c, of w] obtain undo where
      b: "config_update undo" "undo (upd w) = w" by auto
    from menu_loop_config_Some [OF b(1) y] b(2) None show False by simp
  qed
  with None show ?thesis by simp
qed

lemma start_application_config:
  assumes c: "config_update upd"
  shows "start_application (upd w) = map_option (apsnd upd) (start_application w)"
  using ignoresD [OF ignores_TaskService_new [OF c], of w]
  by (cases "TaskService_new w")
    (auto simp add: start_application_def menu_loop_config [OF c] split: sum.splits)

subsection \<open>How the loop ends\<close>

lemma loop_raises_crashes:
  assumes "menu_loop svc w = Some y"
  shows "TaskService_instance svc repo w \<longrightarrow> (\<forall>e w'. y = (Inl e, w') \<longrightarrow> crashes e (stdin w))"
proof (rule menu_loop.raw_induct
    [where P = "\<lambda>s w y. TaskService_instance s repo w \<longrightarrow>
        (\<forall>e w'. y = (Inl e, w') \<longrightarrow> crashes e (stdin w))", OF _ assms])
  fix loop svc w y
  assume IH: "\<And>a b y. loop a b = Some y \<Longrightarrow> TaskService_instance a repo b \<longrightarrow>
        (\<forall>e w'. y = (Inl e, w') \<longrightarrow> crashes e (stdin b))"
    and step: "(case menu_iteration svc w of
        (Inl e, w') \<Rightarrow> Some (Inl e, w')
      | (Inr Continue, w') \<Rightarrow> loop svc w'
      | (Inr Break, w') \<Rightarrow> Some (Inr PyNone, w')) = Some y"
  show "TaskService_instance svc repo w \<longrightarrow> (\<forall>e w'. y = (Inl e, w') \<longrightarrow> crashes e (stdin w))"
  proof
    assume inst: "TaskService_instance svc repo w"
    show "\<forall>e w'. y = (Inl e, w') \<longrightarrow> crashes e (stdin w)"
    proof (cases "stdin w")
      case EOF
      with step show ?thesis by (auto simp add: it_eof intro: crashes.intros)
    next
      case (Line c rest)
      show ?thesis
      proof (cases "c = ''1''")
        case True
        with Line step inst show ?thesis
          by (auto simp add: it_view [of w rest svc repo] intro: crashes.intros)
      next
        case c1: False
        show ?thesis
        proof (cases "c = ''2''")
          case True
          show ?thesis
          proof (cases rest)
            case EOF
            with Line True step show ?thesis by (auto simp add: it_add_eof intro: crashes.intros)
          next
            case (Line d rest')
            with \<open>stdin w = Line c rest\<close> True have s: "stdin w = Line ''2'' (Line d rest')"
              by simp
            let ?w' = "w\<lparr>stdin := rest',
                 stdout := stdout w @ menu_text @
                  [Prompted ''Enter task description: '', Printed ''Task added successfully'']\<rparr>"
            from step it_add [OF s inst] have "loop svc ?w' = Some y" by simp
            moreover have "TaskService_instance svc repo ?w'"
              using inst by (simp add: instance_heap [of ?w' w])
            ultimately show ?thesis using IH [of svc ?w' y] s by (auto intro: crashes.intros)
          qed
        next
          case c2: False
          show ?thesis
          proof (cases "c = ''3''")
            case True
            with Line step show ?thesis by (auto simp add: it_quit)
          next
            case False
            let ?w' = "w\<lparr>stdin := rest,
              stdout := stdout w @ menu_text @ [Printed ''Invalid Choice. Please try again.'']\<rparr>"
            from Line c1 c2 False step have "loop svc ?w' = Some y"
              by (simp add: it_invalid)
            moreover have "TaskService_instance svc repo ?w'"
              using inst by (simp add: instance_heap [of ?w' w])
            ultimately show ?thesis using IH [of svc ?w' y] Line c1 c2 False
              by (auto intro: crashes.intros)
          qed
        qed
      qed
    qed
  qed
qed

lemma crashes_loop_raises:
  assumes "crashes e s"
  shows "stdin w = s \<Longrightarrow> TaskService_instance svc repo w \<Longrightarrow>
     \<exists>w'. menu_loop svc w = Some (Inl e, w')"
  using assms
proof (induction arbitrary: w rule: crashes.induct)
  case crash_eof
  then show ?case by (subst menu_loop.simps) (simp add: it_eof)
next
  case (crash_view rest)
  then show ?case by (subst menu_loop.simps) (simp add: it_view [of w rest svc repo])
next
  case crash_add_eof
  then show ?case by (subst menu_loop.simps) (simp add: it_add_eof)
next
  case (crash_after_invalid c e rest)
  let ?w' = "w\<lparr>stdin := rest,
            stdout := stdout w @ menu_text @ [Printed ''Invalid Choice. Please try again.'']\<rparr>"
  have "TaskService_instance svc repo ?w'"
    using crash_after_invalid.prems(2) by (simp add: instance_heap [of ?w' w])
  with crash_after_invalid.IH [of ?w'] obtain w' where "menu_loop svc ?w' = Some (Inl e, w')"
    by auto
  with crash_after_invalid show ?case by (subst menu_loop.simps) (simp add: it_invalid)
next
  case (crash_after_add e rest d)
  let ?w' = "w\<lparr>stdin := rest,
          stdout := stdout w @ menu_text @
            [Prompted ''Enter task description: '', Printed ''Task added successfully'']\<rparr>"
  have "TaskService_instance svc repo ?w'"
    using crash_after_add.prems(2) by (simp add: instance_heap [of ?w' w])
  with crash_after_add.IH [of ?w'] obtain w' where "menu_loop svc ?w' = Some (Inl e, w')"
    by auto
  with crash_after_add show ?case by (subst menu_loop.simps) (simp add: it_add [of w d rest svc repo])
qed

lemma start_application_loop:
  "start_application w = menu_loop (PyRef (length (heap w))) (snd (TaskService_new w))"
  by (simp add: start_application_def TaskService_new_eq)

lemma TaskService_new_stdin: "stdin (snd (TaskService_new w)) = stdin w"
  by (simp add: TaskService_new_eq)

lemma start_application_returns:
  "(\<exists>w'. start_application w = Some (Inr PyNone, w') \<and> last (stdout w') = Printed ''Exiting the application. Goodbye!'')
     = quits (stdin w)"
proof
  assume "\<exists>w'. start_application w = Some (Inr PyNone, w') \<and> last (stdout w') = Printed ''Exiting the application. Goodbye!''"
  then obtain w' where "menu_loop (PyRef (length (heap w))) (snd (TaskService_new w))
      = Some (Inr PyNone, w')"
    by (auto simp add: start_application_loop)
  from loop_returns_quits [OF this] show "quits (stdin w)"
    by (simp add: TaskService_new_stdin)
next
  assume "quits (stdin w)"
  from quits_loop_returns [OF this, of "snd (TaskService_new w)", OF _ TaskService_new_instance]
  obtain w' where l: "menu_loop (PyRef (length (heap w))) (snd (TaskService_new w))
      = Some (Inr PyNone, w')"
    by (auto simp add: TaskService_new_stdin)
  from loop_returns_quits [OF l] have "last (stdout w') = Printed ''Exiting the application. Goodbye!''" by simp
  with l show "\<exists>w'. start_application w = Some (Inr PyNone, w') \<and> last (stdout w') = Printed ''Exiting the application. Goodbye!''"
    by (auto simp add: start_application_loop)
qed

lemma start_application_raises:
  "(\<exists>w'. start_application w = Some (Inl e, w')) = crashes e (stdin w)"
proof
  assume "\<exists>w'. start_application w = Some (Inl e, w')"
  then obtain w' where "menu_loop (PyRef (length (heap w))) (snd (TaskService_new w))
      = Some (Inl e, w')"
    by (auto simp add: start_application_loop)
  from loop_raises_crashes [OF this, of "PyRef (Suc (length (heap w)))"] TaskService_new_instance [of w]
  show "crashes e (stdin w)"
    by (simp add: TaskService_new_stdin)
next
  assume "crashes e (stdin w)"
  from crashes_loop_raises [OF this, of "snd (TaskService_new w)", OF _ TaskService_new_instance]
  show "\<exists>w'. start_application w = Some (Inl e, w')"
    by (auto simp add: TaskService_new_stdin start_application_loop)
qed

lemma start_application_forever:
  "(start_application w = None) = (\<not> quits (stdin w) \<and> \<not> (\<exists>e. crashes e (stdin w)))"
proof (cases "start_application w")
  case None
  with start_application_returns [of w] start_application_raises [where w = w] show ?thesis by auto
next
  case (Some y)
  obtain r w' where y: "y = (r, w')" by (cases y)
  show ?thesis
  proof (cases r)
    case (Inl e)
    with Some y start_application_raises [where w = w and e = e] show ?thesis by auto
  next
    case (Inr v)
    with Some y have "menu_loop (PyRef (length (heap w))) (snd (TaskService_new w))
      = Some (Inr v, w')" by (simp add: start_application_loop)
    from loop_returns_quits [OF this] Some show ?thesis by (simp add: TaskService_new_stdin)
  qed
qed

lemma not_quits_forever: "quits s \<Longrightarrow> l \<noteq> ''3'' \<Longrightarrow> s \<noteq> forever l"
proof (induction rule: quits.induct)
  case (quit_now rest)
  then show ?case by (subst forever.code) simp
next
  case (quit_after_invalid c rest)
  then show ?case by (subst forever.code) simp
next
  case (quit_after_add rest d)
  then show ?case by (subst forever.code, subst forever.code) simp
qed

lemma not_crashes_forever: "crashes e s \<Longrightarrow> l \<noteq> ''1'' \<Longrightarrow> s \<noteq> forever l"
proof (induction rule: crashes.induct)
  case crash_eof
  then show ?case by (subst forever.code) simp
next
  case (crash_view rest)
  then show ?case by (subst forever.code) simp
next
  case crash_add_eof
  then show ?case by (subst forever.code, subst forever.code) simp
next
  case (crash_after_invalid c e rest)
  then show ?case by (subst forever.code) simp
next
  case (crash_after_add e rest d)
  then show ?case by (subst forever.code, subst forever.code) simp
qed

lemma runs_forever:
  "l \<noteq> ''1'' \<Longrightarrow> l \<noteq> ''3'' \<Longrightarrow> start_application (w\<lparr>stdin := forever l\<rparr>) = None"
  using not_quits_forever [of "forever l" l] not_crashes_forever [of _ "forever l" l]
  by (auto simp add: start_application_forever)

text \<open>
  A session that ends with the farewell: the user adds a task, mistypes, and quits.
\<close>

lemma example_session:
  "start_application (initial_world (Line ''2'' (Line ''buy milk'' (Line ''7'' (Line ''3'' EOF))))) =
     Some (Inr PyNone,
       \<lparr>heap = [\<lparr>cls = TaskService, attrs = [(''task_repository'', PyRef 1)]\<rparr>,
                \<lparr>cls = TaskRepository, attrs = []\<rparr>],
        stdin = EOF,
        stdout = menu_text @
          [Prompted ''Enter task description: '', Printed ''Task added successfully''] @
          menu_text @ [Printed ''Invalid Choice. Please try again.''] @
          menu_text @ [Printed ''Exiting the application. Goodbye!''],
        FILENAME = ''data.txt'', TASK_MAX_LENGTH = 100\<rparr>)"
proof -
  let ?h = "[\<lparr>cls = TaskService, attrs = [(''task_repository'', PyRef 1)]\<rparr>,
             \<lparr>cls = TaskRepository, attrs = []\<rparr>]"
  let ?a = "\<lparr>heap = ?h, stdin = Line ''2'' (Line ''buy milk'' (Line ''7'' (Line ''3'' EOF))),
             stdout = [], FILENAME = ''data.txt'', TASK_MAX_LENGTH = 100\<rparr>"
  let ?o1 = "menu_text @
          [Prompted ''Enter task description: '', Printed ''Task added successfully'']"
  let ?b = "\<lparr>heap = ?h, stdin = Line ''7'' (Line ''3'' EOF),
             stdout = ?o1, FILENAME = ''data.txt'', TASK_MAX_LENGTH = 100\<rparr>"
  let ?o2 = "?o1 @ menu_text @ [Printed ''Invalid Choice. Please try again.'']"
  let ?c = "\<lparr>heap = ?h, stdin = Line ''3'' EOF,
             stdout = ?o2, FILENAME = ''data.txt'', TASK_MAX_LENGTH = 100\<rparr>"
  let ?o3 = "?o2 @ menu_text @ [Printed ''Exiting the application. Goodbye!'']"
  let ?d = "\<lparr>heap = ?h, stdin = EOF,
             stdout = ?o3, FILENAME = ''data.txt'', TASK_MAX_LENGTH = 100\<rparr>"
  have i: "TaskService_instance (PyRef 0) (PyRef 1) ?a"
    by (simp add: TaskService_instance_def plain_instance_def deref_def py_getattr_def)
  have "start_application
      (initial_world (Line ''2'' (Line ''buy milk'' (Line ''7'' (Line ''3'' EOF))))) =
      menu_loop (PyRef 0) ?a"
    by (simp add: start_application_loop TaskService_new_eq initial_world_def blank_world_def
        config_module_def constants_module_def)
  also have "\<dots> = menu_loop (PyRef 0) ?b"
    by (subst loop_add [where d = "''buy milk''" and rest = "Line ''7'' (Line ''3'' EOF)", OF _ i])
      simp_all
  also have "\<dots> = menu_loop (PyRef 0) ?c"
    by (subst loop_invalid [where c = "''7''" and rest = "Line ''3'' EOF"]) simp_all
  also have "\<dots> = Some (Inr PyNone, ?d)"
    by (subst loop_quit [where rest = EOF]) simp_all
  finally show ?thesis by simp
qed

subsection \<open>What a pass writes, and a new task\<close>

lemma it_stdout: "\<exists>out. stdout (snd (menu_iteration svc w)) = stdout w @ menu_text @ out"
proof (cases "stdin w")
  case EOF
  then show ?thesis by (simp add: it_eof)
next
  case (Line c rest)
  show ?thesis
  proof (cases "c = ''1''")
    case True
    let ?start = "w\<lparr>stdout := stdout w @ menu_text, stdin := rest\<rparr>"
    have eq: "menu_iteration svc w =
      py_bind (call_get_all_tasks svc) (\<lambda>tasks.
         py_bind (py_print ''Tasks: '') (\<lambda>_.
         py_bind (lift (py_iter tasks)) (\<lambda>items.
         py_bind (print_tasks items) (\<lambda>_. py_return Continue)))) ?start"
      using Line True by (simp add: menu_iteration_unfold prog_defs menu_text_def)
    from call_get_all_tasks_cases [of svc ?start] show ?thesis
      by (auto simp add: eq prog_defs)
  next
    case c1: False
    show ?thesis
    proof (cases "c = ''2''")
      case True
      show ?thesis
      proof (cases rest)
        case EOF
        with Line True show ?thesis by (simp add: it_add_eof)
      next
        case (Line d rest')
        with \<open>stdin w = Line c rest\<close> True have "stdin w = Line ''2'' (Line d rest')" by simp
        from it_add_any [OF this, of svc] show ?thesis by auto
      qed
    next
      case c2: False
      show ?thesis
      proof (cases "c = ''3''")
        case True
        with Line show ?thesis by (simp add: it_quit)
      next
        case False
        with Line c1 c2 show ?thesis by (simp add: it_invalid)
      qed
    qed
  qed
qed

lemma Task_new_eq:
  "Task_new title description w =
     (Inr (PyRef (length (heap w))),
      w\<lparr>heap := heap w @
         [\<lparr>cls = Task, attrs = [(''title'', title), (''description'', description)]\<rparr>]\<rparr>)"
  by (simp add: Task_new_def Task_init_def new_object_def py_setattr_def
      deref_def py_bind_def py_return_def nth_append)

section \<open>The claims\<close>

text \<open>
  Claim C1. Run against the stub repository, \<^verbatim>\<open>TestTaskService.test_add_task\<close> does
  not pass: \<^verbatim>\<open>task_service.get_all_tasks()\<close> returns \<^verbatim>\<open>None\<close>, and
  \<^verbatim>\<open>len(None)\<close> raises \<^verbatim>\<open>TypeError\<close> in the first line after the service is
  created, so the method raises instead of returning. The world it leaves behind holds
  the new service and its repository and nothing else: no \<^verbatim>\<open>Task\<close> was created and
  no assertion was reached.
\<close>

theorem test_add_task_raises_TypeError:
  "test_add_task w = (Inl TypeError, snd (TaskService_new w)) \<and>
   call_get_all_tasks (PyRef (length (heap w))) (snd (TaskService_new w)) =
     (Inr PyNone, snd (TaskService_new w)) \<and>
   py_len PyNone = Inl TypeError"
proof -
  have c: "call_get_all_tasks (PyRef (length (heap w))) (snd (TaskService_new w)) =
     (Inr PyNone, snd (TaskService_new w))"
    using TaskService_new_instance [of w] by (rule instance_call_get_all_tasks)
  have n: "TaskService_new w = (Inr (PyRef (length (heap w))), snd (TaskService_new w))"
    by (simp add: TaskService_new_eq)
  have "test_add_task w = (Inl TypeError, snd (TaskService_new w))"
    unfolding test_add_task_def
    by (subst py_bind_Inr [where m = TaskService_new, OF n],
        subst py_bind_Inr [where m = "call_get_all_tasks (PyRef (length (heap w)))", OF c])
      (simp add: py_bind_def lift_def)
  with c show ?thesis by simp
qed

text \<open>
  Claim C2. Whatever the receiver, the argument and the world,
  \<^verbatim>\<open>TaskRepository.get_tasks\<close>, \<^verbatim>\<open>TaskRepository.save_task\<close> and
  \<^verbatim>\<open>format_date\<close> return \<^verbatim>\<open>None\<close> and leave the world (heap, input, output,
  module variables) as it was; and a call \<^verbatim>\<open>obj.get_tasks()\<close> or
  \<^verbatim>\<open>obj.save_task(task)\<close> on any object at all leaves the world as it was.
\<close>

theorem repository_and_format_date_are_placeholders:
  "get_tasks self w = (Inr PyNone, w) \<and>
   save_task self task w = (Inr PyNone, w) \<and>
   format_date date w = (Inr PyNone, w) \<and>
   snd (call_get_tasks obj w) = w \<and>
   snd (call_save_task obj task w) = w"
  using call_get_tasks_cases [of obj w] call_save_task_cases [of obj task w]
  by (auto simp add: get_tasks_def save_task_def format_date_def)

text \<open>
  Claim C3. For a service \<open>s\<close> whose attribute \<^verbatim>\<open>task_repository\<close> is \<open>repo\<close>,
  \<^verbatim>\<open>s.get_all_tasks()\<close> is exactly the call \<^verbatim>\<open>repo.get_tasks()\<close> and
  \<^verbatim>\<open>s.add_task(t)\<close> is exactly the call \<^verbatim>\<open>repo.save_task(t)\<close>: the same result
  or the same error, and the same world. When \<open>repo\<close> is a \<^verbatim>\<open>TaskRepository\<close>,
  as after \<^verbatim>\<open>TaskService()\<close>, these are the repository's own two methods.
\<close>

theorem service_forwards_to_repository:
  assumes "fst (py_getattr s ''task_repository'' w) = Inr repo"
  shows "get_all_tasks s w = call_get_tasks repo w \<and>
     add_task s t w = call_save_task repo t w \<and>
     (plain_instance TaskRepository repo w \<longrightarrow>
        get_all_tasks s w = get_tasks repo w \<and> add_task s t w = save_task repo t w)"
  using assms
  by (simp add: get_all_tasks_forwards add_task_forwards call_get_tasks_plain
      call_save_task_plain)

text \<open>The service that \<^verbatim>\<open>TaskService()\<close> creates in the initial world.\<close>

theorem service_forwards_to_repository_witness:
  "fst (py_getattr (PyRef 0) ''task_repository'' (snd (TaskService_new (initial_world EOF))))
     = Inr (PyRef 1) \<and>
   plain_instance TaskRepository (PyRef 1) (snd (TaskService_new (initial_world EOF))) \<and>
   get_all_tasks (PyRef 0) (snd (TaskService_new (initial_world EOF)))
     = (Inr PyNone, snd (TaskService_new (initial_world EOF))) \<and>
   add_task (PyRef 0) (PyStr ''buy milk'') (snd (TaskService_new (initial_world EOF)))
     = (Inr PyNone, snd (TaskService_new (initial_world EOF)))"
proof -
  let ?w = "snd (TaskService_new (initial_world EOF))"
  have h: "fst (py_getattr (PyRef 0) ''task_repository'' ?w) = Inr (PyRef 1)"
    by (simp add: TaskService_new_eq initial_world_def blank_world_def config_module_def
        constants_module_def py_getattr_def deref_def)
  have p: "plain_instance TaskRepository (PyRef 1) ?w"
    by (simp add: TaskService_new_eq initial_world_def blank_world_def config_module_def
        constants_module_def plain_instance_def deref_def)
  note t = service_forwards_to_repository [OF h, of "PyStr ''buy milk''"]
  from t p have g: "get_all_tasks (PyRef 0) ?w = get_tasks (PyRef 1) ?w" by blast
  from t p have a: "add_task (PyRef 0) (PyStr ''buy milk'') ?w =
      save_task (PyRef 1) (PyStr ''buy milk'') ?w" by blast
  from g have g': "get_all_tasks (PyRef 0) ?w = (Inr PyNone, ?w)" by (simp add: get_tasks_def)
  from a have a': "add_task (PyRef 0) (PyStr ''buy milk'') ?w = (Inr PyNone, ?w)"
    by (simp add: save_task_def)
  from h p g' a' show ?thesis by blast
qed

text \<open>
  Claim C4, as amended. When the user enters \<^verbatim>\<open>"2"\<close> and then a line \<open>d\<close>,
  the pass writes the menu and the two prompts, reads the two lines, calls
  \<^verbatim>\<open>add_task\<close> on the service with the string \<open>d\<close> as it was typed, and,
  once that call has returned, prints \<^verbatim>\<open>"Task added successfully"\<close> whatever
  the line and whatever the call returned, and falls through to the next pass. This
  holds of the body whatever the call does (first two parts, over the call as a
  parameter). With the \<^verbatim>\<open>add_task\<close> of the source on a service, the call always
  returns and the heap is as it was, so nothing has been stored; and the pass writes
  only its fixed texts: the typed line is not written back to the output.
\<close>

theorem add_choice_hands_line_to_add_task:
  assumes "stdin w = Line ''2'' (Line d rest)"
  shows "menu_body view add w =
       py_bind (add (PyStr d)) (\<lambda>_.
       py_bind (py_print ''Task added successfully'') (\<lambda>_. py_return Continue))
         (w\<lparr>stdout := stdout w @ menu_text @ [Prompted ''Enter task description: ''],
            stdin := rest\<rparr>) \<and>
     (add (PyStr d)
          (w\<lparr>stdout := stdout w @ menu_text @ [Prompted ''Enter task description: ''],
             stdin := rest\<rparr>) = (Inr v, w') \<longrightarrow>
        menu_body view add w =
          (Inr Continue, w'\<lparr>stdout := stdout w' @ [Printed ''Task added successfully'']\<rparr>)) \<and>
     (TaskService_instance svc repo w \<longrightarrow>
        menu_iteration svc w =
          (Inr Continue, w\<lparr>stdin := rest,
             stdout := stdout w @ menu_text @
               [Prompted ''Enter task description: '', Printed ''Task added successfully'']\<rparr>) \<and>
        heap (snd (menu_iteration svc w)) = heap w)"
proof (intro conjI impI)
  show "menu_body view add w =
       py_bind (add (PyStr d)) (\<lambda>_.
       py_bind (py_print ''Task added successfully'') (\<lambda>_. py_return Continue))
         (w\<lparr>stdout := stdout w @ menu_text @ [Prompted ''Enter task description: ''],
            stdin := rest\<rparr>)"
    using assms by (rule body_add)
next
  assume "add (PyStr d)
          (w\<lparr>stdout := stdout w @ menu_text @ [Prompted ''Enter task description: ''],
             stdin := rest\<rparr>) = (Inr v, w')"
  with assms show "menu_body view add w =
          (Inr Continue, w'\<lparr>stdout := stdout w' @ [Printed ''Task added successfully'']\<rparr>)"
    by (rule body_add_returns)
next
  assume "TaskService_instance svc repo w"
  with assms show "menu_iteration svc w =
          (Inr Continue, w\<lparr>stdin := rest,
             stdout := stdout w @ menu_text @
               [Prompted ''Enter task description: '', Printed ''Task added successfully'']\<rparr>)"
    by (rule it_add)
next
  show "heap (snd (menu_iteration svc w)) = heap w"
    by (rule it_heap)
qed

text \<open>
  The user of a new service types \<^verbatim>\<open>2\<close> and \<^verbatim>\<open>buy milk\<close>. With a call that
  stores its argument in the repository, the string stored is the line typed; with the
  call of the source, nothing is stored.
\<close>

theorem add_choice_hands_line_to_add_task_witness:
  "stdin (snd (TaskService_new (initial_world (Line ''2'' (Line ''buy milk'' EOF)))))
     = Line ''2'' (Line ''buy milk'' EOF) \<and>
   menu_body (call_get_all_tasks (PyRef 0)) (\<lambda>task. py_setattr (PyRef 1) ''saved'' task)
     (snd (TaskService_new (initial_world (Line ''2'' (Line ''buy milk'' EOF))))) =
     (Inr Continue,
      \<lparr>heap = [\<lparr>cls = TaskService, attrs = [(''task_repository'', PyRef 1)]\<rparr>,
               \<lparr>cls = TaskRepository, attrs = [(''saved'', PyStr ''buy milk'')]\<rparr>],
       stdin = EOF,
       stdout = menu_text @
         [Prompted ''Enter task description: '', Printed ''Task added successfully''],
       FILENAME = ''data.txt'', TASK_MAX_LENGTH = 100\<rparr>) \<and>
   TaskService_instance (PyRef 0) (PyRef 1)
     (snd (TaskService_new (initial_world (Line ''2'' (Line ''buy milk'' EOF))))) \<and>
   menu_iteration (PyRef 0)
     (snd (TaskService_new (initial_world (Line ''2'' (Line ''buy milk'' EOF))))) =
     (Inr Continue,
      \<lparr>heap = [\<lparr>cls = TaskService, attrs = [(''task_repository'', PyRef 1)]\<rparr>,
               \<lparr>cls = TaskRepository, attrs = []\<rparr>],
       stdin = EOF,
       stdout = menu_text @
         [Prompted ''Enter task description: '', Printed ''Task added successfully''],
       FILENAME = ''data.txt'', TASK_MAX_LENGTH = 100\<rparr>)"
proof -
  let ?w = "snd (TaskService_new (initial_world (Line ''2'' (Line ''buy milk'' EOF))))"
  let ?save = "\<lambda>task. py_setattr (PyRef 1) ''saved'' task"
  let ?mid = "?w\<lparr>stdout := stdout ?w @ menu_text @ [Prompted ''Enter task description: ''],
             stdin := EOF\<rparr>"
  let ?h = "[\<lparr>cls = TaskService, attrs = [(''task_repository'', PyRef 1)]\<rparr>,
             \<lparr>cls = TaskRepository, attrs = [(''saved'', PyStr ''buy milk'')]\<rparr>]"
  have s: "stdin ?w = Line ''2'' (Line ''buy milk'' EOF)"
    by (simp add: TaskService_new_eq initial_world_def blank_world_def config_module_def
        constants_module_def)
  have i: "TaskService_instance (PyRef 0) (PyRef 1) ?w"
    using TaskService_new_instance [of "initial_world (Line ''2'' (Line ''buy milk'' EOF))"]
    by (simp add: initial_world_def blank_world_def config_module_def constants_module_def)
  have r: "?save (PyStr ''buy milk'') ?mid = (Inr PyNone, ?mid\<lparr>heap := ?h\<rparr>)"
    by (simp add: py_setattr_def deref_def TaskService_new_eq initial_world_def blank_world_def
        config_module_def constants_module_def)
  note t = add_choice_hands_line_to_add_task [OF s, of "call_get_all_tasks (PyRef 0)" ?save
      PyNone "?mid\<lparr>heap := ?h\<rparr>" "PyRef 0" "PyRef 1"]
  from t r have b: "menu_body (call_get_all_tasks (PyRef 0)) ?save ?w =
      (Inr Continue, ?mid\<lparr>heap := ?h,
         stdout := stdout (?mid\<lparr>heap := ?h\<rparr>) @ [Printed ''Task added successfully'']\<rparr>)"
    by blast
  from t i have m: "menu_iteration (PyRef 0) ?w =
       (Inr Continue, ?w\<lparr>stdin := EOF,
          stdout := stdout ?w @ menu_text @
            [Prompted ''Enter task description: '', Printed ''Task added successfully'']\<rparr>)"
    by blast
  have eb: "?mid\<lparr>heap := ?h,
         stdout := stdout (?mid\<lparr>heap := ?h\<rparr>) @ [Printed ''Task added successfully'']\<rparr> =
      \<lparr>heap = ?h, stdin = EOF,
       stdout = menu_text @
         [Prompted ''Enter task description: '', Printed ''Task added successfully''],
       FILENAME = ''data.txt'', TASK_MAX_LENGTH = 100\<rparr>"
    by (simp add: TaskService_new_eq initial_world_def blank_world_def config_module_def
        constants_module_def)
  have em: "?w\<lparr>stdin := EOF,
          stdout := stdout ?w @ menu_text @
            [Prompted ''Enter task description: '', Printed ''Task added successfully'']\<rparr> =
      \<lparr>heap = [\<lparr>cls = TaskService, attrs = [(''task_repository'', PyRef 1)]\<rparr>,
               \<lparr>cls = TaskRepository, attrs = []\<rparr>],
       stdin = EOF,
       stdout = menu_text @
         [Prompted ''Enter task description: '', Printed ''Task added successfully''],
       FILENAME = ''data.txt'', TASK_MAX_LENGTH = 100\<rparr>"
    by (simp add: TaskService_new_eq initial_world_def blank_world_def config_module_def
        constants_module_def)
  from b eb have b': "menu_body (call_get_all_tasks (PyRef 0)) ?save ?w =
     (Inr Continue,
      \<lparr>heap = ?h, stdin = EOF,
       stdout = menu_text @
         [Prompted ''Enter task description: '', Printed ''Task added successfully''],
       FILENAME = ''data.txt'', TASK_MAX_LENGTH = 100\<rparr>)"
    by simp
  from m em have m': "menu_iteration (PyRef 0) ?w =
     (Inr Continue,
      \<lparr>heap = [\<lparr>cls = TaskService, attrs = [(''task_repository'', PyRef 1)]\<rparr>,
               \<lparr>cls = TaskRepository, attrs = []\<rparr>],
       stdin = EOF,
       stdout = menu_text @
         [Prompted ''Enter task description: '', Printed ''Task added successfully''],
       FILENAME = ''data.txt'', TASK_MAX_LENGTH = 100\<rparr>)"
    by simp
  from s b' i m' show ?thesis by blast
qed

text \<open>
  Claim C4 as it was stated also says that the loop echoes input. It does not: when
  the user types \<^verbatim>\<open>2\<close> and \<^verbatim>\<open>buy milk\<close>, no text written contains
  \<^verbatim>\<open>buy milk\<close>.
\<close>

theorem add_choice_does_not_echo_counterexample:
  "stdout (snd (menu_iteration (PyRef 0)
       (snd (TaskService_new (initial_world (Line ''2'' (Line ''buy milk'' EOF))))))) =
     menu_text @ [Prompted ''Enter task description: '', Printed ''Task added successfully''] \<and>
   \<not> echoes ''buy milk''
     (stdout (snd (menu_iteration (PyRef 0)
       (snd (TaskService_new (initial_world (Line ''2'' (Line ''buy milk'' EOF))))))))"
proof -
  let ?w = "snd (TaskService_new (initial_world (Line ''2'' (Line ''buy milk'' EOF))))"
  have s: "stdin ?w = Line ''2'' (Line ''buy milk'' EOF)"
    by (simp add: TaskService_new_eq initial_world_def blank_world_def config_module_def
        constants_module_def)
  have i: "TaskService_instance (PyRef 0) (PyRef 1) ?w"
    using TaskService_new_instance [of "initial_world (Line ''2'' (Line ''buy milk'' EOF))"]
    by (simp add: initial_world_def blank_world_def config_module_def constants_module_def)
  have o: "stdout (snd (menu_iteration (PyRef 0) ?w)) =
     menu_text @ [Prompted ''Enter task description: '', Printed ''Task added successfully'']"
    by (simp add: it_add [OF s i])
      (simp add: TaskService_new_eq initial_world_def blank_world_def config_module_def
        constants_module_def)
  have "\<not> echoes ''buy milk''
      (menu_text @ [Prompted ''Enter task description: '', Printed ''Task added successfully''])"
    by (simp add: echoes_def menu_text_def)
  with o show ?thesis by simp
qed

text \<open>
  Claim C5. When the line entered at the menu prompt is none of \<^verbatim>\<open>"1"\<close>,
  \<^verbatim>\<open>"2"\<close>, \<^verbatim>\<open>"3"\<close>, the pass prints
  \<^verbatim>\<open>"Invalid Choice. Please try again."\<close> and nothing else changes but the line
  read; the loop then runs its next pass from there, which writes the menu and the
  prompt again: if the input has ended, that prompt is the last thing written and the
  loop ends with \<^verbatim>\<open>EOFError\<close>; if the next line is \<^verbatim>\<open>"3"\<close>, the loop
  returns after the farewell.
\<close>

theorem invalid_choice_reprompts:
  assumes "stdin w = Line c rest" and "c \<noteq> ''1''" and "c \<noteq> ''2''" and "c \<noteq> ''3''"
  shows "menu_iteration svc w =
       (Inr Continue, w\<lparr>stdin := rest,
          stdout := stdout w @ menu_text @ [Printed ''Invalid Choice. Please try again.'']\<rparr>) \<and>
     menu_loop svc w =
       menu_loop svc (w\<lparr>stdin := rest,
          stdout := stdout w @ menu_text @ [Printed ''Invalid Choice. Please try again.'']\<rparr>) \<and>
     (\<exists>out. stdout (snd (menu_iteration svc (w\<lparr>stdin := rest,
          stdout := stdout w @ menu_text @ [Printed ''Invalid Choice. Please try again.'']\<rparr>))) =
        stdout w @ menu_text @ [Printed ''Invalid Choice. Please try again.''] @ menu_text @ out) \<and>
     menu_loop svc w =
       (case menu_iteration svc (w\<lparr>stdin := rest,
          stdout := stdout w @ menu_text @ [Printed ''Invalid Choice. Please try again.'']\<rparr>) of
          (Inl e, w') \<Rightarrow> Some (Inl e, w')
        | (Inr Continue, w') \<Rightarrow> menu_loop svc w'
        | (Inr Break, w') \<Rightarrow> Some (Inr PyNone, w')) \<and>
     (rest = EOF \<longrightarrow>
        menu_loop svc w =
          Some (Inl EOFError, w\<lparr>stdin := EOF,
            stdout := stdout w @ menu_text @ [Printed ''Invalid Choice. Please try again.''] @
              menu_text\<rparr>)) \<and>
     (\<forall>rest'. rest = Line ''3'' rest' \<longrightarrow>
        menu_loop svc w =
          Some (Inr PyNone, w\<lparr>stdin := rest',
            stdout := stdout w @ menu_text @ [Printed ''Invalid Choice. Please try again.''] @
              menu_text @ [Printed ''Exiting the application. Goodbye!'']\<rparr>))"
proof -
  let ?w' = "w\<lparr>stdin := rest,
          stdout := stdout w @ menu_text @ [Printed ''Invalid Choice. Please try again.'']\<rparr>"
  have it: "menu_iteration svc w = (Inr Continue, ?w')"
    using assms by (rule it_invalid)
  have lp: "menu_loop svc w = menu_loop svc ?w'"
    using assms by (rule loop_invalid)
  have out: "\<exists>out. stdout (snd (menu_iteration svc ?w')) =
        stdout w @ menu_text @ [Printed ''Invalid Choice. Please try again.''] @ menu_text @ out"
    using it_stdout [of svc ?w'] by simp
  have unf: "menu_loop svc w =
       (case menu_iteration svc ?w' of
          (Inl e, w') \<Rightarrow> Some (Inl e, w')
        | (Inr Continue, w') \<Rightarrow> menu_loop svc w'
        | (Inr Break, w') \<Rightarrow> Some (Inr PyNone, w'))"
    by (subst lp, subst menu_loop.simps) (rule refl)
  have e: "rest = EOF \<longrightarrow>
        menu_loop svc w =
          Some (Inl EOFError, w\<lparr>stdin := EOF,
            stdout := stdout w @ menu_text @ [Printed ''Invalid Choice. Please try again.''] @
              menu_text\<rparr>)"
  proof
    assume "rest = EOF"
    then have "stdin ?w' = EOF" by simp
    from loop_eof [OF this, of svc] lp \<open>rest = EOF\<close> show "menu_loop svc w =
          Some (Inl EOFError, w\<lparr>stdin := EOF,
            stdout := stdout w @ menu_text @ [Printed ''Invalid Choice. Please try again.''] @
              menu_text\<rparr>)"
      by simp
  qed
  have q: "\<forall>rest'. rest = Line ''3'' rest' \<longrightarrow>
        menu_loop svc w =
          Some (Inr PyNone, w\<lparr>stdin := rest',
            stdout := stdout w @ menu_text @ [Printed ''Invalid Choice. Please try again.''] @
              menu_text @ [Printed ''Exiting the application. Goodbye!'']\<rparr>)"
  proof (intro allI impI)
    fix rest' assume r: "rest = Line ''3'' rest'"
    then have "stdin ?w' = Line ''3'' rest'" by simp
    from loop_quit [OF this, of svc] lp show "menu_loop svc w =
          Some (Inr PyNone, w\<lparr>stdin := rest',
            stdout := stdout w @ menu_text @ [Printed ''Invalid Choice. Please try again.''] @
              menu_text @ [Printed ''Exiting the application. Goodbye!'']\<rparr>)"
      by simp
  qed
  from it lp out unf e q show ?thesis by blast
qed

text \<open>The user of a new service types \<^verbatim>\<open>7\<close> and then \<^verbatim>\<open>3\<close>.\<close>

theorem invalid_choice_witness:
  "stdin (snd (TaskService_new (initial_world (Line ''7'' (Line ''3'' EOF)))))
     = Line ''7'' (Line ''3'' EOF) \<and>
   ''7'' \<noteq> ''1'' \<and> ''7'' \<noteq> ''2'' \<and> ''7'' \<noteq> ''3'' \<and>
   menu_iteration (PyRef 0) (snd (TaskService_new (initial_world (Line ''7'' (Line ''3'' EOF))))) =
     (Inr Continue,
      \<lparr>heap = [\<lparr>cls = TaskService, attrs = [(''task_repository'', PyRef 1)]\<rparr>,
               \<lparr>cls = TaskRepository, attrs = []\<rparr>],
       stdin = Line ''3'' EOF,
       stdout = menu_text @ [Printed ''Invalid Choice. Please try again.''],
       FILENAME = ''data.txt'', TASK_MAX_LENGTH = 100\<rparr>) \<and>
   menu_loop (PyRef 0) (snd (TaskService_new (initial_world (Line ''7'' (Line ''3'' EOF))))) =
     Some (Inr PyNone,
      \<lparr>heap = [\<lparr>cls = TaskService, attrs = [(''task_repository'', PyRef 1)]\<rparr>,
               \<lparr>cls = TaskRepository, attrs = []\<rparr>],
       stdin = EOF,
       stdout = menu_text @ [Printed ''Invalid Choice. Please try again.''] @
         menu_text @ [Printed ''Exiting the application. Goodbye!''],
       FILENAME = ''data.txt'', TASK_MAX_LENGTH = 100\<rparr>)"
proof -
  let ?w = "snd (TaskService_new (initial_world (Line ''7'' (Line ''3'' EOF))))"
  have s: "stdin ?w = Line ''7'' (Line ''3'' EOF)"
    by (simp add: TaskService_new_eq initial_world_def blank_world_def config_module_def
        constants_module_def)
  have c: "''7'' \<noteq> ''1''" "''7'' \<noteq> ''2''" "''7'' \<noteq> ''3''"
    by simp_all
  note t = invalid_choice_reprompts [OF s c, of "PyRef 0"]
  from t have m: "menu_iteration (PyRef 0) ?w =
       (Inr Continue, ?w\<lparr>stdin := Line ''3'' EOF,
          stdout := stdout ?w @ menu_text @ [Printed ''Invalid Choice. Please try again.'']\<rparr>)"
    by blast
  from t have l: "menu_loop (PyRef 0) ?w =
          Some (Inr PyNone, ?w\<lparr>stdin := EOF,
            stdout := stdout ?w @ menu_text @ [Printed ''Invalid Choice. Please try again.''] @
              menu_text @ [Printed ''Exiting the application. Goodbye!'']\<rparr>)"
    by blast
  have em: "?w\<lparr>stdin := Line ''3'' EOF,
          stdout := stdout ?w @ menu_text @ [Printed ''Invalid Choice. Please try again.'']\<rparr> =
      \<lparr>heap = [\<lparr>cls = TaskService, attrs = [(''task_repository'', PyRef 1)]\<rparr>,
               \<lparr>cls = TaskRepository, attrs = []\<rparr>],
       stdin = Line ''3'' EOF,
       stdout = menu_text @ [Printed ''Invalid Choice. Please try again.''],
       FILENAME = ''data.txt'', TASK_MAX_LENGTH = 100\<rparr>"
    by (simp add: TaskService_new_eq initial_world_def blank_world_def config_module_def
        constants_module_def)
  have el: "?w\<lparr>stdin := EOF,
            stdout := stdout ?w @ menu_text @ [Printed ''Invalid Choice. Please try again.''] @
              menu_text @ [Printed ''Exiting the application. Goodbye!'']\<rparr> =
      \<lparr>heap = [\<lparr>cls = TaskService, attrs = [(''task_repository'', PyRef 1)]\<rparr>,
               \<lparr>cls = TaskRepository, attrs = []\<rparr>],
       stdin = EOF,
       stdout = menu_text @ [Printed ''Invalid Choice. Please try again.''] @
         menu_text @ [Printed ''Exiting the application. Goodbye!''],
       FILENAME = ''data.txt'', TASK_MAX_LENGTH = 100\<rparr>"
    by (simp add: TaskService_new_eq initial_world_def blank_world_def config_module_def
        constants_module_def)
  from m em have m': "menu_iteration (PyRef 0) ?w =
     (Inr Continue,
      \<lparr>heap = [\<lparr>cls = TaskService, attrs = [(''task_repository'', PyRef 1)]\<rparr>,
               \<lparr>cls = TaskRepository, attrs = []\<rparr>],
       stdin = Line ''3'' EOF,
       stdout = menu_text @ [Printed ''Invalid Choice. Please try again.''],
       FILENAME = ''data.txt'', TASK_MAX_LENGTH = 100\<rparr>)"
    by simp
  from l el have l': "menu_loop (PyRef 0) ?w =
     Some (Inr PyNone,
      \<lparr>heap = [\<lparr>cls = TaskService, attrs = [(''task_repository'', PyRef 1)]\<rparr>,
               \<lparr>cls = TaskRepository, attrs = []\<rparr>],
       stdin = EOF,
       stdout = menu_text @ [Printed ''Invalid Choice. Please try again.''] @
         menu_text @ [Printed ''Exiting the application. Goodbye!''],
       FILENAME = ''data.txt'', TASK_MAX_LENGTH = 100\<rparr>)"
    by simp
  from s c m' l' show ?thesis by blast
qed

text \<open>
  Claim C6 says that the menu loop stops exactly when the user enters \<^verbatim>\<open>"3"\<close>,
  printing the farewell, and goes on to its next pass after every other entry,
  \<^verbatim>\<open>"1"\<close> included. The code does not do this after \<^verbatim>\<open>"1"\<close>: when the user
  types \<^verbatim>\<open>1\<close> and would then type \<^verbatim>\<open>3\<close>, the first pass prints
  \<^verbatim>\<open>"Tasks: "\<close> and raises \<^verbatim>\<open>TypeError\<close> (the repository returned
  \<^verbatim>\<open>None\<close> where the loop and the test expect a collection), the application
  ends there, the \<^verbatim>\<open>3\<close> is never read and the farewell is never printed.
\<close>

theorem view_then_quit_session_raises_TypeError:
  "start_application (initial_world (Line ''1'' (Line ''3'' EOF))) =
     Some (Inl TypeError,
       \<lparr>heap = [\<lparr>cls = TaskService, attrs = [(''task_repository'', PyRef 1)]\<rparr>,
                \<lparr>cls = TaskRepository, attrs = []\<rparr>],
        stdin = Line ''3'' EOF,
        stdout = menu_text @ [Printed ''Tasks: ''],
        FILENAME = ''data.txt'', TASK_MAX_LENGTH = 100\<rparr>)"
proof -
  let ?init = "initial_world (Line ''1'' (Line ''3'' EOF))"
  let ?w = "snd (TaskService_new ?init)"
  have s: "stdin ?w = Line ''1'' (Line ''3'' EOF)"
    by (simp add: TaskService_new_eq initial_world_def blank_world_def config_module_def
        constants_module_def)
  have i: "TaskService_instance (PyRef (length (heap ?init))) (PyRef (Suc (length (heap ?init)))) ?w"
    by (rule TaskService_new_instance)
  have "menu_loop (PyRef (length (heap ?init))) ?w =
      Some (Inl TypeError, ?w\<lparr>stdin := Line ''3'' EOF,
          stdout := stdout ?w @ menu_text @ [Printed ''Tasks: '']\<rparr>)"
    by (subst menu_loop.simps) (simp add: it_view [OF s i])
  then show ?thesis
    by (simp add: start_application_loop)
      (simp add: TaskService_new_eq initial_world_def blank_world_def config_module_def
        constants_module_def)
qed

text \<open>
  Claim C7. For all strings \<open>title\<close> and \<open>description\<close>, the call
  \<^verbatim>\<open>Task(title, description)\<close> returns a new object (nothing is validated) whose
  \<^verbatim>\<open>title\<close> attribute is \<open>title\<close>, whose \<^verbatim>\<open>description\<close> attribute is
  \<open>description\<close>, and whose instance dictionary holds these two names and no other.
\<close>

theorem Task_construction:
  "Task_new (PyStr title) (PyStr description) w =
     (Inr (PyRef (length (heap w))),
      w\<lparr>heap := heap w @
         [\<lparr>cls = Task,
           attrs = [(''title'', PyStr title), (''description'', PyStr description)]\<rparr>]\<rparr>) \<and>
   py_getattr (PyRef (length (heap w))) ''title''
       (snd (Task_new (PyStr title) (PyStr description) w)) =
     (Inr (PyStr title), snd (Task_new (PyStr title) (PyStr description) w)) \<and>
   py_getattr (PyRef (length (heap w))) ''description''
       (snd (Task_new (PyStr title) (PyStr description) w)) =
     (Inr (PyStr description), snd (Task_new (PyStr title) (PyStr description) w)) \<and>
   map_option (map fst \<circ> attrs)
       (deref (length (heap w)) (snd (Task_new (PyStr title) (PyStr description) w))) =
     Some [''title'', ''description'']"
  by (simp add: Task_new_eq py_getattr_def deref_def)

text \<open>
  Claim C8. \<^verbatim>\<open>TASK_MAX_LENGTH\<close> is never enforced or read: for strings of any
  length \<^verbatim>\<open>Task(title, description)\<close> returns the new object, and
  \<^verbatim>\<open>add_task\<close> on a service returns \<^verbatim>\<open>None\<close> and leaves the world as it was,
  whatever the task; and no operation behaves differently when \<^verbatim>\<open>TASK_MAX_LENGTH\<close>
  is given another value.
\<close>

theorem TASK_MAX_LENGTH_is_never_enforced:
  assumes "TaskService_instance svc repo w"
  shows "Task_new (PyStr title) (PyStr description) w =
       (Inr (PyRef (length (heap w))),
        w\<lparr>heap := heap w @
           [\<lparr>cls = Task,
             attrs = [(''title'', PyStr title), (''description'', PyStr description)]\<rparr>]\<rparr>) \<and>
     add_task svc task w = (Inr PyNone, w) \<and>
     call_add_task svc task w = (Inr PyNone, w) \<and>
     ignores (\<lambda>w. w\<lparr>TASK_MAX_LENGTH := n\<rparr>) (Task_new t d) \<and>
     ignores (\<lambda>w. w\<lparr>TASK_MAX_LENGTH := n\<rparr>) TaskService_new \<and>
     ignores (\<lambda>w. w\<lparr>TASK_MAX_LENGTH := n\<rparr>) (get_all_tasks self) \<and>
     ignores (\<lambda>w. w\<lparr>TASK_MAX_LENGTH := n\<rparr>) (add_task self task) \<and>
     ignores (\<lambda>w. w\<lparr>TASK_MAX_LENGTH := n\<rparr>) (get_tasks self) \<and>
     ignores (\<lambda>w. w\<lparr>TASK_MAX_LENGTH := n\<rparr>) (save_task self task) \<and>
     ignores (\<lambda>w. w\<lparr>TASK_MAX_LENGTH := n\<rparr>) (format_date date) \<and>
     ignores (\<lambda>w. w\<lparr>TASK_MAX_LENGTH := n\<rparr>) test_add_task \<and>
     start_application (w'\<lparr>TASK_MAX_LENGTH := n\<rparr>) =
       map_option (apsnd (\<lambda>w. w\<lparr>TASK_MAX_LENGTH := n\<rparr>)) (start_application w')"
proof -
  have c: "config_update (\<lambda>w. w\<lparr>TASK_MAX_LENGTH := n\<rparr>)"
    by (auto simp add: config_update_def)
  show ?thesis
    using assms start_application_config [OF c, of w']
    by (simp add: Task_new_eq instance_add_task [of svc repo] instance_call_add_task [of svc repo]
        ignores_Task_new [OF c] ignores_TaskService_new [OF c] ignores_get_all_tasks [OF c]
        ignores_add_task [OF c] ignores_get_tasks ignores_save_task ignores_format_date
        ignores_test_add_task [OF c])
qed

text \<open>A title and a description of 101 characters, with \<^verbatim>\<open>TASK_MAX_LENGTH\<close> at 100.\<close>

theorem TASK_MAX_LENGTH_is_never_enforced_witness:
  "TaskService_instance (PyRef 0) (PyRef 1) (snd (TaskService_new (initial_world EOF))) \<and>
   TASK_MAX_LENGTH (snd (TaskService_new (initial_world EOF)))
     < int (length (replicate 101 (CHR ''a''))) \<and>
   fst (Task_new (PyStr (replicate 101 (CHR ''a''))) (PyStr (replicate 101 (CHR ''a'')))
         (snd (TaskService_new (initial_world EOF)))) = Inr (PyRef 2) \<and>
   add_task (PyRef 0) (PyStr (replicate 101 (CHR ''a''))) (snd (TaskService_new (initial_world EOF)))
     = (Inr PyNone, snd (TaskService_new (initial_world EOF)))"
proof -
  let ?w = "snd (TaskService_new (initial_world EOF))"
  let ?long = "replicate 101 (CHR ''a'')"
  have i: "TaskService_instance (PyRef 0) (PyRef 1) ?w"
    using TaskService_new_instance [of "initial_world EOF"]
    by (simp add: initial_world_def blank_world_def config_module_def constants_module_def)
  have l: "TASK_MAX_LENGTH ?w < int (length ?long)"
    by (simp add: TaskService_new_eq initial_world_def blank_world_def config_module_def
        constants_module_def)
  have h: "length (heap ?w) = 2"
    by (simp add: TaskService_new_eq initial_world_def blank_world_def config_module_def
        constants_module_def)
  note t = TASK_MAX_LENGTH_is_never_enforced [OF i, of ?long ?long "PyStr ?long"]
  from t have "fst (Task_new (PyStr ?long) (PyStr ?long) ?w) = Inr (PyRef (length (heap ?w)))"
    by simp
  with h have n: "fst (Task_new (PyStr ?long) (PyStr ?long) ?w) = Inr (PyRef 2)" by simp
  from t have a: "add_task (PyRef 0) (PyStr ?long) ?w = (Inr PyNone, ?w)" by blast
  from i l n a show ?thesis by blast
qed

text \<open>
  Claim C9. After config.py has run, \<^verbatim>\<open>FILENAME\<close> is \<^verbatim>\<open>"data.txt"\<close>; and no
  operation reads it: with any other value in its place, each operation gives the same
  result, the same output and the same heap.
\<close>

theorem FILENAME_is_never_read:
  "FILENAME (config_module w) = ''data.txt'' \<and>
   ignores (\<lambda>w. w\<lparr>FILENAME := f\<rparr>) (get_tasks self) \<and>
   ignores (\<lambda>w. w\<lparr>FILENAME := f\<rparr>) (save_task self task) \<and>
   ignores (\<lambda>w. w\<lparr>FILENAME := f\<rparr>) (get_all_tasks self) \<and>
   ignores (\<lambda>w. w\<lparr>FILENAME := f\<rparr>) (add_task self task) \<and>
   ignores (\<lambda>w. w\<lparr>FILENAME := f\<rparr>) TaskService_new \<and>
   ignores (\<lambda>w. w\<lparr>FILENAME := f\<rparr>) (Task_new title description) \<and>
   ignores (\<lambda>w. w\<lparr>FILENAME := f\<rparr>) (format_date date) \<and>
   ignores (\<lambda>w. w\<lparr>FILENAME := f\<rparr>) test_add_task \<and>
   start_application (w\<lparr>FILENAME := f\<rparr>) =
     map_option (apsnd (\<lambda>w. w\<lparr>FILENAME := f\<rparr>)) (start_application w)"
proof -
  have c: "config_update (\<lambda>w. w\<lparr>FILENAME := f\<rparr>)"
    by (auto simp add: config_update_def)
  show ?thesis
    using start_application_config [OF c, of w]
    by (simp add: config_module_def
        ignores_Task_new [OF c] ignores_TaskService_new [OF c] ignores_get_all_tasks [OF c]
        ignores_add_task [OF c] ignores_get_tasks ignores_save_task ignores_format_date
        ignores_test_add_task [OF c])
qed

text \<open>
  Claim C10. When the user enters \<^verbatim>\<open>"1"\<close>, \<^verbatim>\<open>task_service.get_all_tasks()\<close>
  returns \<^verbatim>\<open>None\<close>, \<^verbatim>\<open>"Tasks: "\<close> is printed, and the \<^verbatim>\<open>for\<close> loop over
  \<^verbatim>\<open>None\<close> raises \<^verbatim>\<open>TypeError\<close>, which nothing catches: the pass, the loop
  and \<^verbatim>\<open>start_application\<close> end with it, and no task line is printed.
\<close>

theorem view_choice_raises_TypeError:
  assumes "stdin w = Line ''1'' rest" and "TaskService_instance svc repo w"
  shows "call_get_all_tasks svc (w\<lparr>stdout := stdout w @ menu_text, stdin := rest\<rparr>) =
       (Inr PyNone, w\<lparr>stdout := stdout w @ menu_text, stdin := rest\<rparr>) \<and>
     py_iter PyNone = Inl TypeError \<and>
     menu_iteration svc w =
       (Inl TypeError, w\<lparr>stdin := rest, stdout := stdout w @ menu_text @ [Printed ''Tasks: '']\<rparr>) \<and>
     menu_loop svc w =
       Some (Inl TypeError,
         w\<lparr>stdin := rest, stdout := stdout w @ menu_text @ [Printed ''Tasks: '']\<rparr>) \<and>
     start_application w =
       Some (Inl TypeError,
         w\<lparr>heap := heap w @
            [\<lparr>cls = TaskService,
              attrs = [(''task_repository'', PyRef (Suc (length (heap w))))]\<rparr>,
             \<lparr>cls = TaskRepository, attrs = []\<rparr>],
           stdin := rest, stdout := stdout w @ menu_text @ [Printed ''Tasks: '']\<rparr>)"
proof (intro conjI)
  show "call_get_all_tasks svc (w\<lparr>stdout := stdout w @ menu_text, stdin := rest\<rparr>) =
       (Inr PyNone, w\<lparr>stdout := stdout w @ menu_text, stdin := rest\<rparr>)"
    using assms(2) by (rule instance_call_get_all_tasks_heap) simp
  show "py_iter PyNone = Inl TypeError" by simp
  show it: "menu_iteration svc w =
       (Inl TypeError, w\<lparr>stdin := rest, stdout := stdout w @ menu_text @ [Printed ''Tasks: '']\<rparr>)"
    using assms by (rule it_view)
  show "menu_loop svc w =
       Some (Inl TypeError,
         w\<lparr>stdin := rest, stdout := stdout w @ menu_text @ [Printed ''Tasks: '']\<rparr>)"
    by (subst menu_loop.simps) (simp add: it)
  let ?start = "snd (TaskService_new w)"
  have s: "stdin ?start = Line ''1'' rest"
    using assms(1) by (simp add: TaskService_new_eq)
  have "menu_loop (PyRef (length (heap w))) ?start =
      Some (Inl TypeError,
        ?start\<lparr>stdin := rest, stdout := stdout ?start @ menu_text @ [Printed ''Tasks: '']\<rparr>)"
    by (subst menu_loop.simps) (simp add: it_view [OF s TaskService_new_instance])
  then show "start_application w =
       Some (Inl TypeError,
         w\<lparr>heap := heap w @
            [\<lparr>cls = TaskService,
              attrs = [(''task_repository'', PyRef (Suc (length (heap w))))]\<rparr>,
             \<lparr>cls = TaskRepository, attrs = []\<rparr>],
           stdin := rest, stdout := stdout w @ menu_text @ [Printed ''Tasks: '']\<rparr>)"
    by (simp add: start_application_loop) (simp add: TaskService_new_eq)
qed

text \<open>The user of a new service types \<^verbatim>\<open>1\<close>.\<close>

theorem view_choice_raises_TypeError_witness:
  "stdin (snd (TaskService_new (initial_world (Line ''1'' EOF)))) = Line ''1'' EOF \<and>
   TaskService_instance (PyRef 0) (PyRef 1) (snd (TaskService_new (initial_world (Line ''1'' EOF)))) \<and>
   menu_loop (PyRef 0) (snd (TaskService_new (initial_world (Line ''1'' EOF)))) =
     Some (Inl TypeError,
       \<lparr>heap = [\<lparr>cls = TaskService, attrs = [(''task_repository'', PyRef 1)]\<rparr>,
                \<lparr>cls = TaskRepository, attrs = []\<rparr>],
        stdin = EOF,
        stdout = menu_text @ [Printed ''Tasks: ''],
        FILENAME = ''data.txt'', TASK_MAX_LENGTH = 100\<rparr>)"
proof -
  let ?w = "snd (TaskService_new (initial_world (Line ''1'' EOF)))"
  have s: "stdin ?w = Line ''1'' EOF"
    by (simp add: TaskService_new_eq initial_world_def blank_world_def config_module_def
        constants_module_def)
  have i: "TaskService_instance (PyRef 0) (PyRef 1) ?w"
    using TaskService_new_instance [of "initial_world (Line ''1'' EOF)"]
    by (simp add: initial_world_def blank_world_def config_module_def constants_module_def)
  from view_choice_raises_TypeError [OF s i]
  have m: "menu_loop (PyRef 0) ?w =
       Some (Inl TypeError,
         ?w\<lparr>stdin := EOF, stdout := stdout ?w @ menu_text @ [Printed ''Tasks: '']\<rparr>)"
    by blast
  have e: "?w\<lparr>stdin := EOF, stdout := stdout ?w @ menu_text @ [Printed ''Tasks: '']\<rparr> =
       \<lparr>heap = [\<lparr>cls = TaskService, attrs = [(''task_repository'', PyRef 1)]\<rparr>,
                \<lparr>cls = TaskRepository, attrs = []\<rparr>],
        stdin = EOF,
        stdout = menu_text @ [Printed ''Tasks: ''],
        FILENAME = ''data.txt'', TASK_MAX_LENGTH = 100\<rparr>"
    by (simp add: TaskService_new_eq initial_world_def blank_world_def config_module_def
        constants_module_def)
  from m e have "menu_loop (PyRef 0) ?w =
     Some (Inl TypeError,
       \<lparr>heap = [\<lparr>cls = TaskService, attrs = [(''task_repository'', PyRef 1)]\<rparr>,
                \<lparr>cls = TaskRepository, attrs = []\<rparr>],
        stdin = EOF,
        stdout = menu_text @ [Printed ''Tasks: ''],
        FILENAME = ''data.txt'', TASK_MAX_LENGTH = 100\<rparr>)"
    by simp
  with s i show ?thesis by blast
qed

end
